theory Spec2Isabelle
  imports Main
begin

section \<open>Runtime values and the executable tree\<close>

text \<open>
  The interpreter's runtime objects (\<^verbatim>\<open>runtime.cpp\<close>) and the nodes of its executable
  tree (\<^verbatim>\<open>statement.cpp\<close>) refer to each other: a class owns methods, a method owns a
  body, and a \<^verbatim>\<open>ClassDefinition\<close> node holds a class. A \<^verbatim>\<open>ClassInstance\<close> is
  mutable and reachable through several holders, so a holder carries the address of the
  instance and the instances themselves live in a store.

  A \<^verbatim>\<open>NewInstance\<close> node has the data member \<^verbatim>\<open>class_instance_\<close>, built from the
  class when the node is constructed; the node is modelled by the address of that member
  and its argument list.
\<close>

type_synonym addr = nat

datatype comparator =
  CmpEqual | CmpLess | CmpNotEqual | CmpGreater | CmpLessOrEqual | CmpGreaterOrEqual

datatype stmt =
    VariableValue "string list"
  | Assignment string stmt
  | FieldAssignment "string list" string stmt
  | None_stmt
  | Print "stmt list"
  | MethodCall stmt string "stmt list"
  | NewInstance addr "stmt list"
  | Stringify stmt
  | Add stmt stmt
  | Sub stmt stmt
  | Mult stmt stmt
  | Div stmt stmt
  | Or stmt stmt
  | And stmt stmt
  | Not_stmt stmt
  | Compound "stmt list"
  | MethodBody stmt
  | Return stmt
  | ClassDefinition "obj option"
  | IfElse stmt stmt "stmt option"
  | Comparison comparator stmt stmt
  | NumericConst int
  | StringConst string
  | BoolConst bool
and cls = Cls (cname: string) (methods: "class_method list") (parent: "cls option")
and class_method = Method (method_name: string) (formal_params: "string list") (body: stmt)
and obj = Number int | String string | Bool bool | ClassInstance addr | Class cls

text \<open>An \<^verbatim>\<open>ObjectHolder\<close> is empty or points to an object; a \<^verbatim>\<open>Closure\<close> maps names to holders.\<close>

type_synonym ObjectHolder = "obj option"
type_synonym Closure = "string \<rightharpoonup> ObjectHolder"

definition Own :: "obj \<Rightarrow> ObjectHolder" where
  "Own v = Some v"

definition Share :: "addr \<Rightarrow> ObjectHolder" where
  "Share a = Some (ClassInstance a)"

definition TryAs_Bool :: "ObjectHolder \<Rightarrow> bool option" where
  "TryAs_Bool h = (case h of Some (Bool b) \<Rightarrow> Some b | _ \<Rightarrow> None)"

definition TryAs_Number :: "ObjectHolder \<Rightarrow> int option" where
  "TryAs_Number h = (case h of Some (Number n) \<Rightarrow> Some n | _ \<Rightarrow> None)"

definition TryAs_String :: "ObjectHolder \<Rightarrow> string option" where
  "TryAs_String h = (case h of Some (String t) \<Rightarrow> Some t | _ \<Rightarrow> None)"

definition TryAs_ClassInstance :: "ObjectHolder \<Rightarrow> addr option" where
  "TryAs_ClassInstance h = (case h of Some (ClassInstance a) \<Rightarrow> Some a | _ \<Rightarrow> None)"

definition TryAs_Class :: "ObjectHolder \<Rightarrow> cls option" where
  "TryAs_Class h = (case h of Some (Class k) \<Rightarrow> Some k | _ \<Rightarrow> None)"

text \<open>
  A class instance: the class it refers to and its own \<^verbatim>\<open>fields_\<close>. The state of a
  run is the store of instances and the bytes written to the context's output stream.
\<close>

record instance_data =
  class_of :: cls
  Fields :: Closure

record state =
  instances :: "addr \<Rightarrow> instance_data"
  output_stream :: string

text \<open>
  What a call can do besides returning: throw (a \<^verbatim>\<open>std::runtime_error\<close>, or the
  \<^verbatim>\<open>ObjectHolder\<close> thrown by \<^verbatim>\<open>Return\<close>), run into undefined behaviour, or not
  return within the fuel given. Holders are values here, with no identity of the object
  behind them; where the behaviour of the code depends on whether an object still has
  an owner and the values do not tell, the outcome is \<open>NotModelled\<close>.
\<close>

datatype thrown = runtime_error string | ReturnValue ObjectHolder

datatype undefined_behaviour = NullDereference | AssertionFailed | SignedOverflow | DanglingPointer

datatype 'a outcome = Normal 'a | Throw thrown | Undefined undefined_behaviour | OutOfFuel | NotModelled

type_synonym result = "ObjectHolder outcome \<times> Closure \<times> state"

definition and_then :: "'a outcome \<times> 'w \<Rightarrow> ('a \<Rightarrow> 'w \<Rightarrow> 'b outcome \<times> 'w) \<Rightarrow> 'b outcome \<times> 'w" where
  "and_then r f =
     (case r of
        (Normal v, w) \<Rightarrow> f v w
      | (Throw t, w) \<Rightarrow> (Throw t, w)
      | (Undefined u, w) \<Rightarrow> (Undefined u, w)
      | (OutOfFuel, w) \<Rightarrow> (OutOfFuel, w)
      | (NotModelled, w) \<Rightarrow> (NotModelled, w))"

subsection \<open>Decimal text of integers\<close>

text \<open>The digit of a value below ten.\<close>

definition digit_char :: "nat \<Rightarrow> char" where
  "digit_char d = ''0123456789'' ! d"

fun show_nat :: "nat \<Rightarrow> string" where
  "show_nat n = (if n < 10 then [digit_char n] else show_nat (n div 10) @ [digit_char (n mod 10)])"

declare show_nat.simps [simp del]

definition show_int :: "int \<Rightarrow> string" where
  "show_int i = (if i < 0 then CHR ''-'' # show_nat (nat (- i)) else show_nat (nat i))"

subsection \<open>Classes and method lookup\<close>

text \<open>
  The constructor of \<^verbatim>\<open>Class\<close> fills \<^verbatim>\<open>table_methods_\<close> in the order of the method
  list, so the last method of a name is the one the table keeps.
\<close>

fun GetMethod :: "cls \<Rightarrow> string \<Rightarrow> class_method option" where
  "GetMethod (Cls nm ms p) name =
     (case find (\<lambda>m. method_name m = name) (rev ms) of
        Some m \<Rightarrow> Some m
      | None \<Rightarrow> (case p of Some k \<Rightarrow> GetMethod k name | None \<Rightarrow> None))"

definition HasMethod :: "instance_data \<Rightarrow> string \<Rightarrow> nat \<Rightarrow> bool" where
  "HasMethod inst name argument_count =
     (case GetMethod (class_of inst) name of
        None \<Rightarrow> False
      | Some m \<Rightarrow> argument_count = length (formal_params m))"

definition bind_params :: "string list \<Rightarrow> ObjectHolder list \<Rightarrow> Closure \<Rightarrow> Closure" where
  "bind_params ps args closure = fold (\<lambda>(p, v) c. c(p \<mapsto> v)) (zip ps args) closure"

definition Call ::
  "(stmt \<Rightarrow> Closure \<Rightarrow> state \<Rightarrow> result) \<Rightarrow> addr \<Rightarrow> string \<Rightarrow> ObjectHolder list \<Rightarrow> state
     \<Rightarrow> ObjectHolder outcome \<times> state" where
  "Call ex a name actual_args s =
     (if \<not> HasMethod (instances s a) name (length actual_args)
      then (Throw (runtime_error (''Method '' @ name @ '' is not implemented.'')), s)
      else
        (case GetMethod (class_of (instances s a)) name of
           None \<Rightarrow> (Undefined NullDereference, s)
         | Some m \<Rightarrow>
             (if length (formal_params m) > length actual_args
              then (Throw (runtime_error
                      (show_nat (length (formal_params m)) @ '' arguments were expected for the '' @ name
                         @ '' function.'')), s)
              else
                (case ex (body m) (bind_params (formal_params m) actual_args [''self'' \<mapsto> Share a]) s of
                   (r, closure, s') \<Rightarrow> (r, s')))))"

subsection \<open>Printing\<close>

text \<open>
  An instance without \<^verbatim>\<open>__str__\<close> prints its own address (\<^verbatim>\<open>os << this\<close>); the text
  of a pointer is implementation-defined, and the model writes the address in decimal
  after \<^verbatim>\<open>0x\<close>.
\<close>

definition address_text :: "addr \<Rightarrow> string" where
  "address_text a = ''0x'' @ show_nat a"

text \<open>
  \<^verbatim>\<open>Object::Print(os, context)\<close>: the result is the text appended to \<^verbatim>\<open>os\<close>. The
  holder returned by \<^verbatim>\<open>__str__\<close> is dereferenced with \<^verbatim>\<open>operator->\<close>, which asserts
  that it is not empty.

  Modelled from the spec: \<^verbatim>\<open>Print\<close> of \<^verbatim>\<open>Number\<close> and \<^verbatim>\<open>String\<close> is declared in
  \<^verbatim>\<open>runtime.h\<close>, which is not among the sources; a number prints in decimal and a
  string prints its bytes.
\<close>

definition Print_obj ::
  "(stmt \<Rightarrow> Closure \<Rightarrow> state \<Rightarrow> result) \<Rightarrow> (obj \<Rightarrow> state \<Rightarrow> string outcome \<times> state)
     \<Rightarrow> obj \<Rightarrow> state \<Rightarrow> string outcome \<times> state" where
  "Print_obj ex pr ob s =
     (case ob of
        Number n \<Rightarrow> (Normal (show_int n), s)
      | String t \<Rightarrow> (Normal t, s)
      | Bool b \<Rightarrow> (Normal (if b then ''True'' else ''False''), s)
      | Class k \<Rightarrow> (Normal (''Class '' @ cname k), s)
      | ClassInstance a \<Rightarrow>
          (if HasMethod (instances s a) ''__str__'' 0
           then and_then (Call ex a ''__str__'' [] s)
                  (\<lambda>h s1. case h of None \<Rightarrow> (Undefined AssertionFailed, s1) | Some ob' \<Rightarrow> pr ob' s1)
           else (Normal (address_text a), s)))"


subsection \<open>Comparison (runtime.cpp)\<close>

text \<open>
  \<^verbatim>\<open>TryAsPair<T>(lhs, rhs)\<close> followed by the test that both pointers are set.
\<close>

definition TryAsPair :: "(ObjectHolder \<Rightarrow> 'a option) \<Rightarrow> ObjectHolder \<Rightarrow> ObjectHolder \<Rightarrow> ('a \<times> 'a) option" where
  "TryAsPair try_as lhs rhs =
     (case try_as lhs of
        None \<Rightarrow> None
      | Some l \<Rightarrow> (case try_as rhs of None \<Rightarrow> None | Some r \<Rightarrow> Some (l, r)))"

text \<open>
  The test \<^verbatim>\<open>ci && ci->HasMethod(name, n)\<close> on \<^verbatim>\<open>lhs.TryAs<ClassInstance>()\<close>.
\<close>

definition instance_with_method :: "state \<Rightarrow> ObjectHolder \<Rightarrow> string \<Rightarrow> nat \<Rightarrow> addr option" where
  "instance_with_method s h name n =
     (case TryAs_ClassInstance h of
        None \<Rightarrow> None
      | Some a \<Rightarrow> (if HasMethod (instances s a) name n then Some a else None))"

text \<open>
  The two generic lambdas handed to \<^verbatim>\<open>ComparatorImpl\<close>, at the three types they are
  used at. \<^verbatim>\<open>std::string\<close> compares bytes lexicographically.
\<close>

datatype comparator_lambda = eq_comparator | less_comparator

fun string_less :: "string \<Rightarrow> string \<Rightarrow> bool" where
  "string_less [] [] = False"
| "string_less [] (y # ys) = True"
| "string_less (x # xs) [] = False"
| "string_less (x # xs) (y # ys) =
     (if (of_char x :: nat) < of_char y then True
      else if (of_char y :: nat) < of_char x then False
      else string_less xs ys)"

definition compare_bool :: "comparator_lambda \<Rightarrow> bool \<Rightarrow> bool \<Rightarrow> bool" where
  "compare_bool f l r = (case f of eq_comparator \<Rightarrow> l = r | less_comparator \<Rightarrow> \<not> l \<and> r)"

definition compare_int :: "comparator_lambda \<Rightarrow> int \<Rightarrow> int \<Rightarrow> bool" where
  "compare_int f l r = (case f of eq_comparator \<Rightarrow> l = r | less_comparator \<Rightarrow> l < r)"

definition compare_string :: "comparator_lambda \<Rightarrow> string \<Rightarrow> string \<Rightarrow> bool" where
  "compare_string f l r = (case f of eq_comparator \<Rightarrow> l = r | less_comparator \<Rightarrow> string_less l r)"

text \<open>
  In the last branch of \<^verbatim>\<open>ComparatorImpl\<close> the holder that the method returns goes
  through \<^verbatim>\<open>TryAs<Bool>()->GetValue()\<close> with no test of the pointer.
\<close>

definition ComparatorImpl ::
  "(stmt \<Rightarrow> Closure \<Rightarrow> state \<Rightarrow> result) \<Rightarrow> ObjectHolder \<Rightarrow> ObjectHolder \<Rightarrow> state
     \<Rightarrow> comparator_lambda \<Rightarrow> string \<Rightarrow> bool outcome \<times> state" where
  "ComparatorImpl ex lhs rhs s comparator default_method_name =
     (case TryAsPair TryAs_Bool lhs rhs of
        Some (l, r) \<Rightarrow> (Normal (compare_bool comparator l r), s)
      | None \<Rightarrow>
     (case TryAsPair TryAs_Number lhs rhs of
        Some (l, r) \<Rightarrow> (Normal (compare_int comparator l r), s)
      | None \<Rightarrow>
     (case TryAsPair TryAs_String lhs rhs of
        Some (l, r) \<Rightarrow> (Normal (compare_string comparator l r), s)
      | None \<Rightarrow>
     (case instance_with_method s lhs default_method_name 1 of
        Some a \<Rightarrow>
          and_then (Call ex a default_method_name [rhs] s)
            (\<lambda>h s1. case TryAs_Bool h of
                       None \<Rightarrow> (Undefined NullDereference, s1)
                     | Some b \<Rightarrow> (Normal b, s1))
      | None \<Rightarrow> (Throw (runtime_error ''Non-comparable objects''), s)))))"

definition Equal ::
  "(stmt \<Rightarrow> Closure \<Rightarrow> state \<Rightarrow> result) \<Rightarrow> ObjectHolder \<Rightarrow> ObjectHolder \<Rightarrow> state \<Rightarrow> bool outcome \<times> state" where
  "Equal ex lhs rhs s =
     (if lhs = None \<and> rhs = None then (Normal True, s)
      else ComparatorImpl ex lhs rhs s eq_comparator ''__eq__'')"

definition Less ::
  "(stmt \<Rightarrow> Closure \<Rightarrow> state \<Rightarrow> result) \<Rightarrow> ObjectHolder \<Rightarrow> ObjectHolder \<Rightarrow> state \<Rightarrow> bool outcome \<times> state" where
  "Less ex lhs rhs s = ComparatorImpl ex lhs rhs s less_comparator ''__lt__''"

definition NotEqual ::
  "(stmt \<Rightarrow> Closure \<Rightarrow> state \<Rightarrow> result) \<Rightarrow> ObjectHolder \<Rightarrow> ObjectHolder \<Rightarrow> state \<Rightarrow> bool outcome \<times> state" where
  "NotEqual ex lhs rhs s = and_then (Equal ex lhs rhs s) (\<lambda>e s1. (Normal (\<not> e), s1))"

definition Greater ::
  "(stmt \<Rightarrow> Closure \<Rightarrow> state \<Rightarrow> result) \<Rightarrow> ObjectHolder \<Rightarrow> ObjectHolder \<Rightarrow> state \<Rightarrow> bool outcome \<times> state" where
  "Greater ex lhs rhs s =
     and_then (Less ex lhs rhs s)
       (\<lambda>l s1. if \<not> l then NotEqual ex lhs rhs s1 else (Normal False, s1))"

definition LessOrEqual ::
  "(stmt \<Rightarrow> Closure \<Rightarrow> state \<Rightarrow> result) \<Rightarrow> ObjectHolder \<Rightarrow> ObjectHolder \<Rightarrow> state \<Rightarrow> bool outcome \<times> state" where
  "LessOrEqual ex lhs rhs s =
     and_then (Less ex lhs rhs s)
       (\<lambda>l s1. if l then (Normal True, s1) else Equal ex lhs rhs s1)"

definition GreaterOrEqual ::
  "(stmt \<Rightarrow> Closure \<Rightarrow> state \<Rightarrow> result) \<Rightarrow> ObjectHolder \<Rightarrow> ObjectHolder \<Rightarrow> state \<Rightarrow> bool outcome \<times> state" where
  "GreaterOrEqual ex lhs rhs s = and_then (Less ex lhs rhs s) (\<lambda>l s1. (Normal (\<not> l), s1))"

definition apply_comparator ::
  "comparator \<Rightarrow> (stmt \<Rightarrow> Closure \<Rightarrow> state \<Rightarrow> result) \<Rightarrow> ObjectHolder \<Rightarrow> ObjectHolder \<Rightarrow> state
     \<Rightarrow> bool outcome \<times> state" where
  "apply_comparator cmp =
     (case cmp of
        CmpEqual \<Rightarrow> Equal
      | CmpLess \<Rightarrow> Less
      | CmpNotEqual \<Rightarrow> NotEqual
      | CmpGreater \<Rightarrow> Greater
      | CmpLessOrEqual \<Rightarrow> LessOrEqual
      | CmpGreaterOrEqual \<Rightarrow> GreaterOrEqual)"


section \<open>Executing the nodes (statement.cpp)\<close>

text \<open>
  Every \<^verbatim>\<open>Execute(closure, context)\<close> takes the closure by reference, so it returns the
  closure it leaves behind together with the state. The parameter \<open>ex\<close> stands for the
  virtual call \<^verbatim>\<open>Execute\<close> on a child node, \<open>pr\<close> for the virtual call \<^verbatim>\<open>Print\<close> on
  an object.
\<close>

subsection \<open>VariableValue\<close>

text \<open>
  The loop over \<^verbatim>\<open>dotted_ids_\<close>, on the ids that remain: \<^verbatim>\<open>i == ids_count - 1\<close> holds
  when one id remains. An id that \<^verbatim>\<open>new_closure\<close> does not hold, and a value that is not
  a class instance, leave \<^verbatim>\<open>new_closure\<close> as it is, and the loop goes on to the next id.
\<close>

fun VariableValue_loop :: "state \<Rightarrow> string list \<Rightarrow> Closure \<Rightarrow> ObjectHolder outcome" where
  "VariableValue_loop s [] new_closure =
     Throw (runtime_error
       (''Unexpected error of the '' @ [CHR 0x22] @ ''VariableValue::Execute'' @ [CHR 0x22] @ '' method''))"
| "VariableValue_loop s (x # xs) new_closure =
     (case new_closure x of
        None \<Rightarrow> VariableValue_loop s xs new_closure
      | Some h \<Rightarrow>
          (if xs = [] then Normal h
           else (case TryAs_ClassInstance h of
                   Some a \<Rightarrow> VariableValue_loop s xs (Fields (instances s a))
                 | None \<Rightarrow> VariableValue_loop s xs new_closure)))"

definition VariableValue_Execute :: "string list \<Rightarrow> Closure \<Rightarrow> state \<Rightarrow> result" where
  "VariableValue_Execute dotted_ids closure s = (VariableValue_loop s dotted_ids closure, closure, s)"

subsection \<open>Assignment and FieldAssignment\<close>

definition Assignment_Execute ::
  "(stmt \<Rightarrow> Closure \<Rightarrow> state \<Rightarrow> result) \<Rightarrow> string \<Rightarrow> stmt \<Rightarrow> Closure \<Rightarrow> state \<Rightarrow> result" where
  "Assignment_Execute ex variable_name r_value closure s =
     and_then (ex r_value closure s) (\<lambda>v (c1, s1). (Normal v, c1(variable_name \<mapsto> v), s1))"

definition set_field :: "addr \<Rightarrow> string \<Rightarrow> ObjectHolder \<Rightarrow> state \<Rightarrow> state" where
  "set_field a name v s =
     s\<lparr>instances := (instances s)(a := (instances s a)\<lparr>Fields := (Fields (instances s a))(name \<mapsto> v)\<rparr>)\<rparr>"

text \<open>
  \<^verbatim>\<open>Fields()[field_name_]\<close> is taken before the right-hand side runs: an absent field is
  inserted there with an empty holder.
\<close>

definition touch_field :: "addr \<Rightarrow> string \<Rightarrow> state \<Rightarrow> state" where
  "touch_field a name s =
     (if Fields (instances s a) name = None then set_field a name None s else s)"

definition FieldAssignment_Execute ::
  "(stmt \<Rightarrow> Closure \<Rightarrow> state \<Rightarrow> result) \<Rightarrow> string list \<Rightarrow> string \<Rightarrow> stmt \<Rightarrow> Closure \<Rightarrow> state \<Rightarrow> result" where
  "FieldAssignment_Execute ex object field_name r_value closure s =
     and_then (VariableValue_Execute object closure s)
       (\<lambda>obj (c0, s0).
          case TryAs_ClassInstance obj of
            None \<Rightarrow>
              (Throw (runtime_error ''FieldAssignment::Execute. The object is not a custom type''), c0, s0)
          | Some a \<Rightarrow>
              and_then (ex r_value c0 (touch_field a field_name s0))
                (\<lambda>v (c1, s1). (Normal v, c1(field_name \<mapsto> v), set_field a field_name v s1)))"

subsection \<open>Print, MethodCall, NewInstance, Stringify\<close>

fun exec_args ::
  "(stmt \<Rightarrow> Closure \<Rightarrow> state \<Rightarrow> result) \<Rightarrow> stmt list \<Rightarrow> Closure \<Rightarrow> state
     \<Rightarrow> ObjectHolder list outcome \<times> Closure \<times> state" where
  "exec_args ex [] closure s = (Normal [], closure, s)"
| "exec_args ex (a # as) closure s =
     and_then (ex a closure s)
       (\<lambda>v (c1, s1). and_then (exec_args ex as c1 s1) (\<lambda>vs w. (Normal (v # vs), w)))"

text \<open>
  The loop of \<^verbatim>\<open>Print::Execute\<close> over \<^verbatim>\<open>args_\<close>; \<open>first\<close> is \<^verbatim>\<open>i == 0\<close> and \<open>os\<close>
  the text collected in the local \<^verbatim>\<open>ostringstream\<close>.
\<close>

fun Print_loop ::
  "(stmt \<Rightarrow> Closure \<Rightarrow> state \<Rightarrow> result) \<Rightarrow> (obj \<Rightarrow> state \<Rightarrow> string outcome \<times> state)
     \<Rightarrow> stmt list \<Rightarrow> bool \<Rightarrow> string \<Rightarrow> Closure \<Rightarrow> state \<Rightarrow> string outcome \<times> Closure \<times> state" where
  "Print_loop ex pr [] first os closure s = (Normal os, closure, s)"
| "Print_loop ex pr (a # as) first os closure s =
     and_then (ex a closure s)
       (\<lambda>oh (c1, s1).
          case oh of
            None \<Rightarrow> Print_loop ex pr as False ((if first then os else os @ '' '') @ ''None'') c1 s1
          | Some ob \<Rightarrow>
              (case pr ob s1 of
                 (r, s2) \<Rightarrow>
                   and_then (r, c1, s2)
                     (\<lambda>txt (c2, s3).
                        Print_loop ex pr as False ((if first then os else os @ '' '') @ txt) c2 s3)))"

definition Print_Execute ::
  "(stmt \<Rightarrow> Closure \<Rightarrow> state \<Rightarrow> result) \<Rightarrow> (obj \<Rightarrow> state \<Rightarrow> string outcome \<times> state)
     \<Rightarrow> stmt list \<Rightarrow> Closure \<Rightarrow> state \<Rightarrow> result" where
  "Print_Execute ex pr args closure s =
     and_then (Print_loop ex pr args True [] closure s)
       (\<lambda>txt (c1, s1).
          (Normal (Own (String txt)), c1,
           s1\<lparr>output_stream := output_stream s1 @ txt @ [CHR 0x0A]\<rparr>))"

definition MethodCall_Execute ::
  "(stmt \<Rightarrow> Closure \<Rightarrow> state \<Rightarrow> result) \<Rightarrow> stmt \<Rightarrow> string \<Rightarrow> stmt list \<Rightarrow> Closure \<Rightarrow> state \<Rightarrow> result" where
  "MethodCall_Execute ex object mname args closure s =
     and_then (ex object closure s)
       (\<lambda>oh (c1, s1).
          case TryAs_ClassInstance oh of
            None \<Rightarrow> (Throw (runtime_error ''MethodCall::Execute. The object is not a custom type''), c1, s1)
          | Some a \<Rightarrow>
              (if \<not> HasMethod (instances s1 a) mname (length args)
               then (Throw (runtime_error
                       (''MethodCall::Execute. The class does not have a '' @ [CHR 0x22] @ mname
                          @ [CHR 0x22] @ '' method with '' @ show_nat (length args) @ '' arguments'')),
                     c1, s1)
               else
                 and_then (exec_args ex args c1 s1)
                   (\<lambda>actual_args (c2, s2).
                      case Call ex a mname actual_args s2 of (r, s3) \<Rightarrow> (r, c2, s3))))"

text \<open>
  \<^verbatim>\<open>NewInstance::Execute\<close> works on the member \<^verbatim>\<open>class_instance_\<close> of the node, here
  the instance at address \<open>a\<close>, and ends with \<^verbatim>\<open>ObjectHolder::Share(class_instance_)\<close>.
\<close>

definition NewInstance_Execute ::
  "(stmt \<Rightarrow> Closure \<Rightarrow> state \<Rightarrow> result) \<Rightarrow> addr \<Rightarrow> stmt list \<Rightarrow> Closure \<Rightarrow> state \<Rightarrow> result" where
  "NewInstance_Execute ex a args closure s =
     (if HasMethod (instances s a) ''__init__'' (length args)
      then
        and_then (exec_args ex args closure s)
          (\<lambda>actual_args (c1, s1).
             case Call ex a ''__init__'' actual_args s1 of
               (r, s2) \<Rightarrow> and_then (r, c1, s2) (\<lambda>ignored w. (Normal (Share a), w)))
      else (Normal (Share a), closure, s))"

text \<open>
  \<^verbatim>\<open>Stringify::Execute\<close> takes \<^verbatim>\<open>.Get()\<close> of the holder that
  \<^verbatim>\<open>argument_->Execute(closure, context)\<close> returns, inside the initialiser of its
  \<^verbatim>\<open>if\<close>: the holder is a temporary and is destroyed before \<^verbatim>\<open>Print\<close> is called
  through the pointer. The object is destroyed with it when the temporary was its only
  owner. That depends on the node the holder came from:
  \<^item> a class instance is a member of its \<^verbatim>\<open>NewInstance\<close> node and every holder on it
    is a non-owning one (\<^verbatim>\<open>ObjectHolder::Share\<close>), so it stays;
  \<^item> \<^verbatim>\<open>VariableValue\<close>, \<^verbatim>\<open>Assignment\<close>, \<^verbatim>\<open>FieldAssignment\<close> and \<^verbatim>\<open>ClassDefinition\<close>
    return a copy of a holder that a closure or the fields of an instance keep, so the
    object stays;
  \<^item> \<^verbatim>\<open>Print\<close>, \<^verbatim>\<open>Stringify\<close>, \<^verbatim>\<open>Sub\<close>, \<^verbatim>\<open>Mult\<close>, \<^verbatim>\<open>Div\<close>, \<^verbatim>\<open>Or\<close>, \<^verbatim>\<open>And\<close>,
    \<^verbatim>\<open>Not\<close>, \<^verbatim>\<open>Comparison\<close>, and \<^verbatim>\<open>Add\<close> on two numbers or two strings, return
    \<^verbatim>\<open>ObjectHolder::Own\<close> of a new object, as the constant nodes do (modelled from the
    spec: a fresh owning holder on the literal); the temporary is the only owner and
    the object is destroyed. \<^verbatim>\<open>Add\<close> returns normally without \<^verbatim>\<open>Own\<close> only when its left
    operand is a class instance with \<^verbatim>\<open>__add__\<close>;
  \<^item> what a method returned (\<^verbatim>\<open>MethodCall\<close>, \<^verbatim>\<open>Add\<close> through \<^verbatim>\<open>__add__\<close>), and what
    \<^verbatim>\<open>MethodBody\<close> and \<^verbatim>\<open>IfElse\<close> pass on, may or may not have another owner; holders
    as values do not tell, and the case is not followed.
\<close>

datatype pointee = StillOwned | Destroyed | NotFollowed

definition after_temporary ::
  "(stmt \<Rightarrow> Closure \<Rightarrow> state \<Rightarrow> result) \<Rightarrow> stmt \<Rightarrow> Closure \<Rightarrow> state \<Rightarrow> obj \<Rightarrow> pointee" where
  "after_temporary ex argument closure s ob =
     (case ob of
        ClassInstance a \<Rightarrow> StillOwned
      | _ \<Rightarrow>
          (case argument of
             VariableValue dotted_ids \<Rightarrow> StillOwned
           | Assignment var rv \<Rightarrow> StillOwned
           | FieldAssignment object field_name rv \<Rightarrow> StillOwned
           | ClassDefinition class_holder \<Rightarrow> StillOwned
           | NumericConst n \<Rightarrow> Destroyed
           | StringConst t \<Rightarrow> Destroyed
           | BoolConst b \<Rightarrow> Destroyed
           | Print args \<Rightarrow> Destroyed
           | Stringify x \<Rightarrow> Destroyed
           | Sub l r \<Rightarrow> Destroyed
           | Mult l r \<Rightarrow> Destroyed
           | Div l r \<Rightarrow> Destroyed
           | Or l r \<Rightarrow> Destroyed
           | And l r \<Rightarrow> Destroyed
           | Not_stmt x \<Rightarrow> Destroyed
           | Comparison cmp l r \<Rightarrow> Destroyed
           | Add l r \<Rightarrow>
               (case ex l closure s of
                  (Normal lhs, c1, s1) \<Rightarrow>
                    (if TryAs_ClassInstance lhs = None then Destroyed else NotFollowed)
                | other \<Rightarrow> NotFollowed)
           | _ \<Rightarrow> NotFollowed))"

definition Stringify_Execute ::
  "(stmt \<Rightarrow> Closure \<Rightarrow> state \<Rightarrow> result) \<Rightarrow> (obj \<Rightarrow> state \<Rightarrow> string outcome \<times> state)
     \<Rightarrow> stmt \<Rightarrow> Closure \<Rightarrow> state \<Rightarrow> result" where
  "Stringify_Execute ex pr argument closure s =
     and_then (ex argument closure s)
       (\<lambda>oh (c1, s1).
          case oh of
            Some ob \<Rightarrow>
              (case after_temporary ex argument closure s ob of
                 StillOwned \<Rightarrow>
                   (case pr ob s1 of
                      (r, s2) \<Rightarrow> and_then (r, c1, s2) (\<lambda>txt w. (Normal (Own (String txt)), w)))
               | Destroyed \<Rightarrow> (Undefined DanglingPointer, c1, s1)
               | NotFollowed \<Rightarrow> (NotModelled, c1, s1))
          | None \<Rightarrow> (Normal (Own (String ''None'')), c1, s1))"

subsection \<open>Arithmetic\<close>

text \<open>
  The values are C++ \<^verbatim>\<open>int\<close>s: a result outside the 32-bit range is a signed overflow,
  which is undefined behaviour. Division truncates towards zero.
\<close>

definition int_result :: "int \<Rightarrow> ObjectHolder outcome" where
  "int_result v =
     (if - (2 ^ 31) \<le> v \<and> v < 2 ^ 31 then Normal (Own (Number v)) else Undefined SignedOverflow)"

definition truncated_div :: "int \<Rightarrow> int \<Rightarrow> int" where
  "truncated_div a b = sgn a * sgn b * (\<bar>a\<bar> div \<bar>b\<bar>)"

definition Add_Execute ::
  "(stmt \<Rightarrow> Closure \<Rightarrow> state \<Rightarrow> result) \<Rightarrow> stmt \<Rightarrow> stmt \<Rightarrow> Closure \<Rightarrow> state \<Rightarrow> result" where
  "Add_Execute ex lhs_stmt rhs_stmt closure s =
     and_then (ex lhs_stmt closure s)
       (\<lambda>lhs (c1, s1).
          and_then (ex rhs_stmt c1 s1)
            (\<lambda>rhs (c2, s2).
               case TryAsPair TryAs_Number lhs rhs of
                 Some (l, r) \<Rightarrow> (int_result (l + r), c2, s2)
               | None \<Rightarrow>
              (case TryAsPair TryAs_String lhs rhs of
                 Some (l, r) \<Rightarrow> (Normal (Own (String (l @ r))), c2, s2)
               | None \<Rightarrow>
              (case instance_with_method s2 lhs ''__add__'' 1 of
                 Some a \<Rightarrow> (case Call ex a ''__add__'' [rhs] s2 of (r, s3) \<Rightarrow> (r, c2, s3))
               | None \<Rightarrow> (Throw (runtime_error ''Add::Execute is failed''), c2, s2)))))"

definition Sub_Execute ::
  "(stmt \<Rightarrow> Closure \<Rightarrow> state \<Rightarrow> result) \<Rightarrow> stmt \<Rightarrow> stmt \<Rightarrow> Closure \<Rightarrow> state \<Rightarrow> result" where
  "Sub_Execute ex lhs_stmt rhs_stmt closure s =
     and_then (ex lhs_stmt closure s)
       (\<lambda>lhs (c1, s1).
          and_then (ex rhs_stmt c1 s1)
            (\<lambda>rhs (c2, s2).
               case TryAsPair TryAs_Number lhs rhs of
                 Some (l, r) \<Rightarrow> (int_result (l - r), c2, s2)
               | None \<Rightarrow> (Throw (runtime_error ''Sub::Execute is failed''), c2, s2)))"

definition Mult_Execute ::
  "(stmt \<Rightarrow> Closure \<Rightarrow> state \<Rightarrow> result) \<Rightarrow> stmt \<Rightarrow> stmt \<Rightarrow> Closure \<Rightarrow> state \<Rightarrow> result" where
  "Mult_Execute ex lhs_stmt rhs_stmt closure s =
     and_then (ex lhs_stmt closure s)
       (\<lambda>lhs (c1, s1).
          and_then (ex rhs_stmt c1 s1)
            (\<lambda>rhs (c2, s2).
               case TryAsPair TryAs_Number lhs rhs of
                 Some (l, r) \<Rightarrow> (int_result (l * r), c2, s2)
               | None \<Rightarrow> (Throw (runtime_error ''Mult::Execute is failed''), c2, s2)))"

definition Div_Execute ::
  "(stmt \<Rightarrow> Closure \<Rightarrow> state \<Rightarrow> result) \<Rightarrow> stmt \<Rightarrow> stmt \<Rightarrow> Closure \<Rightarrow> state \<Rightarrow> result" where
  "Div_Execute ex lhs_stmt rhs_stmt closure s =
     and_then (ex lhs_stmt closure s)
       (\<lambda>lhs (c1, s1).
          and_then (ex rhs_stmt c1 s1)
            (\<lambda>rhs (c2, s2).
               case TryAsPair TryAs_Number lhs rhs of
                 Some (l, r) \<Rightarrow>
                   (if r \<noteq> 0 then (int_result (truncated_div l r), c2, s2)
                    else (Throw (runtime_error ''Div::Execute is failed''), c2, s2))
               | None \<Rightarrow> (Throw (runtime_error ''Div::Execute is failed''), c2, s2)))"

subsection \<open>Or, And, Not\<close>

definition Or_Execute ::
  "(stmt \<Rightarrow> Closure \<Rightarrow> state \<Rightarrow> result) \<Rightarrow> stmt \<Rightarrow> stmt \<Rightarrow> Closure \<Rightarrow> state \<Rightarrow> result" where
  "Or_Execute ex lhs_stmt rhs_stmt closure s =
     and_then (ex lhs_stmt closure s)
       (\<lambda>lhs_obj (c1, s1).
          if TryAs_Bool lhs_obj = Some True then (Normal (Own (Bool True)), c1, s1)
          else
            and_then (ex rhs_stmt c1 s1)
              (\<lambda>rhs_obj (c2, s2).
                 if TryAs_Bool rhs_obj = Some True then (Normal (Own (Bool True)), c2, s2)
                 else (Normal (Own (Bool False)), c2, s2)))"

definition And_Execute ::
  "(stmt \<Rightarrow> Closure \<Rightarrow> state \<Rightarrow> result) \<Rightarrow> stmt \<Rightarrow> stmt \<Rightarrow> Closure \<Rightarrow> state \<Rightarrow> result" where
  "And_Execute ex lhs_stmt rhs_stmt closure s =
     and_then (ex lhs_stmt closure s)
       (\<lambda>lhs_obj (c1, s1).
          if TryAs_Bool lhs_obj \<noteq> Some True then (Normal (Own (Bool False)), c1, s1)
          else
            and_then (ex rhs_stmt c1 s1)
              (\<lambda>rhs_obj (c2, s2).
                 if TryAs_Bool rhs_obj \<noteq> Some True then (Normal (Own (Bool False)), c2, s2)
                 else (Normal (Own (Bool True)), c2, s2)))"

definition Not_Execute ::
  "(stmt \<Rightarrow> Closure \<Rightarrow> state \<Rightarrow> result) \<Rightarrow> stmt \<Rightarrow> Closure \<Rightarrow> state \<Rightarrow> result" where
  "Not_Execute ex argument closure s =
     and_then (ex argument closure s)
       (\<lambda>arg_obj (c1, s1).
          case TryAs_Bool arg_obj of
            None \<Rightarrow>
              (Throw (runtime_error
                 (''Not::Execute. The argument cannot be cast to the '' @ [CHR 0x22] @ ''runtime::Bool''
                    @ [CHR 0x22] @ '' type'')),
               c1, s1)
          | Some b \<Rightarrow> (Normal (Own (Bool (\<not> b))), c1, s1))"

subsection \<open>Compound, MethodBody, Return, ClassDefinition, IfElse, Comparison\<close>

fun Compound_Execute ::
  "(stmt \<Rightarrow> Closure \<Rightarrow> state \<Rightarrow> result) \<Rightarrow> stmt list \<Rightarrow> Closure \<Rightarrow> state \<Rightarrow> result" where
  "Compound_Execute ex [] closure s = (Normal None, closure, s)"
| "Compound_Execute ex (statement # statements) closure s =
     and_then (ex statement closure s) (\<lambda>ignored (c1, s1). Compound_Execute ex statements c1 s1)"

text \<open>
  \<^verbatim>\<open>MethodBody::Execute\<close> is the one \<^verbatim>\<open>try\<close> block of the tree: it catches a thrown
  \<^verbatim>\<open>ObjectHolder\<close> and lets everything else through.
\<close>

definition MethodBody_Execute ::
  "(stmt \<Rightarrow> Closure \<Rightarrow> state \<Rightarrow> result) \<Rightarrow> stmt \<Rightarrow> Closure \<Rightarrow> state \<Rightarrow> result" where
  "MethodBody_Execute ex body_stmt closure s =
     (case ex body_stmt closure s of
        (Throw (ReturnValue result), c1, s1) \<Rightarrow> (Normal result, c1, s1)
      | r \<Rightarrow> r)"

definition Return_Execute ::
  "(stmt \<Rightarrow> Closure \<Rightarrow> state \<Rightarrow> result) \<Rightarrow> stmt \<Rightarrow> Closure \<Rightarrow> state \<Rightarrow> result" where
  "Return_Execute ex statement closure s =
     and_then (ex statement closure s) (\<lambda>v w. (Throw (ReturnValue v), w))"

definition ClassDefinition_Execute :: "ObjectHolder \<Rightarrow> Closure \<Rightarrow> state \<Rightarrow> result" where
  "ClassDefinition_Execute class_holder closure s =
     (case TryAs_Class class_holder of
        None \<Rightarrow> (Undefined NullDereference, closure, s)
      | Some k \<Rightarrow>
          (if cname k = [] then (Throw (runtime_error ''Class name must not be empty''), closure, s)
           else (Normal class_holder, closure(cname k \<mapsto> class_holder), s)))"

definition IfElse_Execute ::
  "(stmt \<Rightarrow> Closure \<Rightarrow> state \<Rightarrow> result) \<Rightarrow> stmt \<Rightarrow> stmt \<Rightarrow> stmt option \<Rightarrow> Closure \<Rightarrow> state \<Rightarrow> result" where
  "IfElse_Execute ex condition if_body else_body closure s =
     and_then (ex condition closure s)
       (\<lambda>cond (c1, s1).
          case TryAs_Bool cond of
            None \<Rightarrow> (Throw (runtime_error ''Execute is failed''), c1, s1)
          | Some b \<Rightarrow>
              (if b then ex if_body c1 s1
               else (case else_body of
                       Some e \<Rightarrow> ex e c1 s1
                     | None \<Rightarrow> (Normal None, c1, s1))))"

definition Comparison_Execute ::
  "(stmt \<Rightarrow> Closure \<Rightarrow> state \<Rightarrow> result) \<Rightarrow> comparator \<Rightarrow> stmt \<Rightarrow> stmt \<Rightarrow> Closure \<Rightarrow> state \<Rightarrow> result" where
  "Comparison_Execute ex cmp lhs_stmt rhs_stmt closure s =
     and_then (ex lhs_stmt closure s)
       (\<lambda>lhs (c1, s1).
          and_then (ex rhs_stmt c1 s1)
            (\<lambda>rhs (c2, s2).
               case apply_comparator cmp ex lhs rhs s2 of
                 (r, s3) \<Rightarrow> and_then (r, c2, s3) (\<lambda>cmp_result w. (Normal (Own (Bool cmp_result)), w))))"

subsection \<open>The virtual calls\<close>

text \<open>
  Modelled from the spec: the constant nodes \<^verbatim>\<open>NumericConst\<close>, \<^verbatim>\<open>StringConst\<close> and
  \<^verbatim>\<open>BoolConst\<close> are declared in \<^verbatim>\<open>statement.h\<close>, which is not among the sources; they
  return a holder on the literal.
\<close>

definition Execute_node ::
  "(stmt \<Rightarrow> Closure \<Rightarrow> state \<Rightarrow> result) \<Rightarrow> (obj \<Rightarrow> state \<Rightarrow> string outcome \<times> state)
     \<Rightarrow> stmt \<Rightarrow> Closure \<Rightarrow> state \<Rightarrow> result" where
  "Execute_node ex pr st closure s =
     (case st of
        VariableValue dotted_ids \<Rightarrow> VariableValue_Execute dotted_ids closure s
      | Assignment var rv \<Rightarrow> Assignment_Execute ex var rv closure s
      | FieldAssignment object field_name rv \<Rightarrow> FieldAssignment_Execute ex object field_name rv closure s
      | None_stmt \<Rightarrow> (Normal None, closure, s)
      | Print args \<Rightarrow> Print_Execute ex pr args closure s
      | MethodCall object mname args \<Rightarrow> MethodCall_Execute ex object mname args closure s
      | NewInstance a args \<Rightarrow> NewInstance_Execute ex a args closure s
      | Stringify argument \<Rightarrow> Stringify_Execute ex pr argument closure s
      | Add l r \<Rightarrow> Add_Execute ex l r closure s
      | Sub l r \<Rightarrow> Sub_Execute ex l r closure s
      | Mult l r \<Rightarrow> Mult_Execute ex l r closure s
      | Div l r \<Rightarrow> Div_Execute ex l r closure s
      | Or l r \<Rightarrow> Or_Execute ex l r closure s
      | And l r \<Rightarrow> And_Execute ex l r closure s
      | Not_stmt argument \<Rightarrow> Not_Execute ex argument closure s
      | Compound statements \<Rightarrow> Compound_Execute ex statements closure s
      | MethodBody b \<Rightarrow> MethodBody_Execute ex b closure s
      | Return statement \<Rightarrow> Return_Execute ex statement closure s
      | ClassDefinition class_holder \<Rightarrow> ClassDefinition_Execute class_holder closure s
      | IfElse condition if_body else_body \<Rightarrow> IfElse_Execute ex condition if_body else_body closure s
      | Comparison cmp l r \<Rightarrow> Comparison_Execute ex cmp l r closure s
      | NumericConst n \<Rightarrow> (Normal (Own (Number n)), closure, s)
      | StringConst t \<Rightarrow> (Normal (Own (String t)), closure, s)
      | BoolConst b \<Rightarrow> (Normal (Own (Bool b)), closure, s))"

text \<open>
  A method may call itself, and \<^verbatim>\<open>__str__\<close> may return an instance whose \<^verbatim>\<open>__str__\<close>
  is called in turn, so neither virtual call need return. Both take fuel, which every
  nested call uses up by one; a run that needs more than it was given is \<open>OutOfFuel\<close>.
\<close>

fun Execute :: "nat \<Rightarrow> stmt \<Rightarrow> Closure \<Rightarrow> state \<Rightarrow> result"
  and Print_object :: "nat \<Rightarrow> obj \<Rightarrow> state \<Rightarrow> string outcome \<times> state" where
  "Execute 0 st closure s = (OutOfFuel, closure, s)"
| "Execute (Suc n) st closure s = Execute_node (Execute n) (Print_object n) st closure s"
| "Print_object 0 ob s = (OutOfFuel, s)"
| "Print_object (Suc n) ob s = Print_obj (Execute n) (Print_object n) ob s"


section \<open>The lexer (lexer.h, lexer.cpp)\<close>

subsection \<open>Tokens\<close>

datatype token =
    Number_tok int
  | Id_tok string
  | Char_tok char
  | String_tok string
  | Class_tok
  | Return_tok
  | If_tok
  | Else_tok
  | Def_tok
  | Newline_tok
  | Print_tok
  | Indent_tok
  | Dedent_tok
  | And_tok
  | Or_tok
  | Not_tok
  | Eq_tok
  | NotEq_tok
  | LessOrEq_tok
  | GreaterOrEq_tok
  | None_tok
  | True_tok
  | False_tok
  | Eof_tok

definition token_types :: "string \<rightharpoonup> token" where
  "token_types = map_of
     [(''class'', Class_tok), (''return'', Return_tok), (''if'', If_tok), (''else'', Else_tok),
      (''def'', Def_tok), (''print'', Print_tok), (''or'', Or_tok), (''None'', None_tok),
      (''and'', And_tok), (''not'', Not_tok), (''True'', True_tok), (''False'', False_tok)]"

subsection \<open>The input stream\<close>

text \<open>
  A \<^verbatim>\<open>std::istream\<close> as the lexer sees it: the characters not yet read and the two
  state bits that the calls set. \<^verbatim>\<open>peek\<close> and \<^verbatim>\<open>get\<close> on a stream that is not good set
  \<^verbatim>\<open>failbit\<close> and read nothing; \<^verbatim>\<open>peek\<close> at the end sets \<^verbatim>\<open>eofbit\<close>, \<^verbatim>\<open>get\<close> at the
  end sets both bits; the stream converts to \<^verbatim>\<open>true\<close> as long as \<^verbatim>\<open>failbit\<close> is clear.
  The lexer calls \<^verbatim>\<open>putback\<close> only with the character that the \<^verbatim>\<open>get\<close> just before
  returned, so \<^verbatim>\<open>putback\<close> has a position to put it back to.
\<close>

record istream =
  chars :: string
  eofbit :: bool
  failbit :: bool

definition good :: "istream \<Rightarrow> bool" where
  "good s = (\<not> eofbit s \<and> \<not> failbit s)"

definition peek :: "istream \<Rightarrow> char option \<times> istream" where
  "peek s =
     (if \<not> good s then (None, s\<lparr>failbit := True\<rparr>)
      else (case chars s of
              [] \<Rightarrow> (None, s\<lparr>eofbit := True\<rparr>)
            | c # cs \<Rightarrow> (Some c, s)))"

definition get :: "istream \<Rightarrow> char option \<times> istream" where
  "get s =
     (if \<not> good s then (None, s\<lparr>failbit := True\<rparr>)
      else (case chars s of
              [] \<Rightarrow> (None, s\<lparr>eofbit := True, failbit := True\<rparr>)
            | c # cs \<Rightarrow> (Some c, s\<lparr>chars := cs\<rparr>)))"

definition putback :: "char \<Rightarrow> istream \<Rightarrow> istream" where
  "putback c s =
     (if failbit s then s\<lparr>eofbit := False\<rparr>
      else s\<lparr>eofbit := False, chars := c # chars s\<rparr>)"

text \<open>
  \<^verbatim>\<open>std::getline(input, line)\<close>: reads up to and including the next newline, or to the
  end, where it sets \<^verbatim>\<open>eofbit\<close>; it sets \<^verbatim>\<open>failbit\<close> when it could read nothing.
\<close>

definition getline :: "istream \<Rightarrow> istream" where
  "getline s =
     (if \<not> good s then s\<lparr>failbit := True\<rparr>
      else (case dropWhile (\<lambda>c. c \<noteq> CHR 0x0A) (chars s) of
              [] \<Rightarrow> s\<lparr>chars := [], eofbit := True, failbit := (chars s = [])\<rparr>
            | nl # rest \<Rightarrow> s\<lparr>chars := rest\<rparr>))"

text \<open>
  The character classes of \<^verbatim>\<open><cctype>\<close> in the C locale. Bytes from 128 on are in none
  of them.
\<close>

definition isdigit :: "char \<Rightarrow> bool" where
  "isdigit c = (48 \<le> (of_char c :: nat) \<and> (of_char c :: nat) \<le> 57)"

definition isalpha :: "char \<Rightarrow> bool" where
  "isalpha c = ((65 \<le> (of_char c :: nat) \<and> (of_char c :: nat) \<le> 90)
              \<or> (97 \<le> (of_char c :: nat) \<and> (of_char c :: nat) \<le> 122))"

definition isalnum :: "char \<Rightarrow> bool" where
  "isalnum c = (isalpha c \<or> isdigit c)"

definition ispunct :: "char \<Rightarrow> bool" where
  "ispunct c = (33 \<le> (of_char c :: nat) \<and> (of_char c :: nat) \<le> 126 \<and> \<not> isalnum c)"

subsection \<open>The lexer's state and its failures\<close>

record Parser =
  input_tokens :: istream
  tokens :: "token list"
  current_dent :: int

text \<open>
  What ends \<^verbatim>\<open>ParseTokens\<close> other than its return: a \<^verbatim>\<open>LexerError\<close>, the
  \<^verbatim>\<open>std::out_of_range\<close> that \<^verbatim>\<open>std::stoi\<close> throws, or a failed \<^verbatim>\<open>assert\<close>.
\<close>

datatype lex_failure = LexerError string | std_out_of_range | assertion_failed

datatype 'a lexing = Lexed 'a | Raised lex_failure | NoFuel

definition back_is :: "token \<Rightarrow> Parser \<Rightarrow> bool" where
  "back_is t p = (tokens p \<noteq> [] \<and> last (tokens p) = t)"

definition emplace_back :: "token \<Rightarrow> Parser \<Rightarrow> Parser" where
  "emplace_back t p = p\<lparr>tokens := tokens p @ [t]\<rparr>"

definition IsEof :: "Parser \<Rightarrow> bool \<times> Parser" where
  "IsEof p = (case peek (input_tokens p) of (r, s) \<Rightarrow> (r = None, p\<lparr>input_tokens := s\<rparr>))"

subsection \<open>The handlers\<close>

function RemovingSpacesBeforeTokens :: "Parser \<Rightarrow> Parser" where
  "RemovingSpacesBeforeTokens p =
     (case peek (input_tokens p) of
        (Some c, s) \<Rightarrow>
          (if c = CHR '' '' then RemovingSpacesBeforeTokens (p\<lparr>input_tokens := snd (get s)\<rparr>)
           else p\<lparr>input_tokens := s\<rparr>)
      | (None, s) \<Rightarrow> p\<lparr>input_tokens := s\<rparr>)"
  by pat_completeness auto
termination
  by (relation "measure (\<lambda>p. length (chars (input_tokens p)))")
     (auto simp add: peek_def get_def good_def split: if_splits list.splits)

declare RemovingSpacesBeforeTokens.simps [simp del]

text \<open>\<^verbatim>\<open>detail::ReadWord\<close>, with the word read so far.\<close>

function ReadWord :: "string \<Rightarrow> istream \<Rightarrow> string \<times> istream" where
  "ReadWord result_word s =
     (case get s of
        (Some symbol, s1) \<Rightarrow>
          (if isalnum symbol \<or> symbol = CHR ''_'' then ReadWord (result_word @ [symbol]) s1
           else (result_word, putback symbol s1))
      | (None, s1) \<Rightarrow> (result_word, s1))"
  by pat_completeness auto
termination
  by (relation "measure (\<lambda>(w, s). length (chars s))")
     (auto simp add: get_def good_def split: if_splits list.splits)

declare ReadWord.simps [simp del]

definition HandleKeywordOrId :: "Parser \<Rightarrow> Parser" where
  "HandleKeywordOrId p =
     (case IsEof p of
        (True, p1) \<Rightarrow> p1
      | (False, p1) \<Rightarrow>
          (case peek (input_tokens p1) of
             (None, s) \<Rightarrow> p1\<lparr>input_tokens := s\<rparr>
           | (Some symbol, s) \<Rightarrow>
               (if \<not> isalpha symbol \<and> symbol \<noteq> CHR ''_'' then p1\<lparr>input_tokens := s\<rparr>
                else (case ReadWord [] s of
                        (parsed_word, s1) \<Rightarrow>
                          (case token_types parsed_word of
                             Some keyword \<Rightarrow> emplace_back keyword (p1\<lparr>input_tokens := s1\<rparr>)
                           | None \<Rightarrow> emplace_back (Id_tok parsed_word) (p1\<lparr>input_tokens := s1\<rparr>))))))"

text \<open>
  In \<^verbatim>\<open>HandleOperatorEqOrSymbol\<close> the second character is peeked at only after one of
  \<^verbatim>\<open>!\<close>, \<^verbatim>\<open>=\<close>, \<^verbatim>\<open>>\<close>, \<^verbatim>\<open><\<close>.
\<close>

definition two_char_operator :: "char \<rightharpoonup> token" where
  "two_char_operator = map_of
     [(CHR ''!'', NotEq_tok), (CHR ''='', Eq_tok), (CHR ''>'', GreaterOrEq_tok), (CHR ''<'', LessOrEq_tok)]"

definition HandleOperatorEqOrSymbol :: "Parser \<Rightarrow> Parser" where
  "HandleOperatorEqOrSymbol p =
     (case IsEof p of
        (True, p1) \<Rightarrow> p1
      | (False, p1) \<Rightarrow>
          (case peek (input_tokens p1) of
             (None, s) \<Rightarrow> p1\<lparr>input_tokens := s\<rparr>
           | (Some c, s) \<Rightarrow>
               (if c = CHR ''#'' then p1\<lparr>input_tokens := s\<rparr>
                else (case get s of
                        (None, s1) \<Rightarrow> p1\<lparr>input_tokens := s1\<rparr>
                      | (Some first_symbol, s1) \<Rightarrow>
                          (if \<not> ispunct first_symbol \<or> first_symbol = CHR 0x22 \<or> first_symbol = CHR 0x27
                           then p1\<lparr>input_tokens := putback first_symbol s1\<rparr>
                           else (case two_char_operator first_symbol of
                                   None \<Rightarrow> emplace_back (Char_tok first_symbol) (p1\<lparr>input_tokens := s1\<rparr>)
                                 | Some operator_token \<Rightarrow>
                                     (case peek s1 of
                                        (next_symbol, s2) \<Rightarrow>
                                          (if next_symbol = Some (CHR ''='')
                                           then emplace_back operator_token (p1\<lparr>input_tokens := snd (get s2)\<rparr>)
                                           else emplace_back (Char_tok first_symbol) (p1\<lparr>input_tokens := s2\<rparr>)))))))))"

text \<open>The digits after the first one, in \<^verbatim>\<open>HandleIntValue\<close>.\<close>

function read_digits :: "string \<Rightarrow> istream \<Rightarrow> string \<times> istream" where
  "read_digits parsed_num s =
     (case get s of
        (Some symbol, s1) \<Rightarrow>
          (if isdigit symbol then read_digits (parsed_num @ [symbol]) s1
           else (parsed_num, putback symbol s1))
      | (None, s1) \<Rightarrow> (parsed_num, s1))"
  by pat_completeness auto
termination
  by (relation "measure (\<lambda>(w, s). length (chars s))")
     (auto simp add: get_def good_def split: if_splits list.splits)

declare read_digits.simps [simp del]

text \<open>
  \<^verbatim>\<open>std::stoi\<close> on a string of digits: the value, or \<^verbatim>\<open>std::out_of_range\<close> when the
  value does not fit an \<^verbatim>\<open>int\<close>.
\<close>

definition digits_value :: "string \<Rightarrow> int" where
  "digits_value ds = foldl (\<lambda>acc d. acc * 10 + (int (of_char d) - 48)) 0 ds"

definition stoi :: "string \<Rightarrow> lex_failure + int" where
  "stoi ds = (if digits_value ds \<le> 2147483647 then Inr (digits_value ds) else Inl std_out_of_range)"

definition HandleIntValue :: "Parser \<Rightarrow> lex_failure + Parser" where
  "HandleIntValue p =
     (case IsEof p of
        (True, p1) \<Rightarrow> Inr p1
      | (False, p1) \<Rightarrow>
          (case get (input_tokens p1) of
             (None, s) \<Rightarrow> Inr (p1\<lparr>input_tokens := s\<rparr>)
           | (Some symbol, s) \<Rightarrow>
               (if \<not> isdigit symbol then Inr (p1\<lparr>input_tokens := putback symbol s\<rparr>)
                else (case read_digits [symbol] s of
                        (parsed_num, s1) \<Rightarrow>
                          (case stoi parsed_num of
                             Inl e \<Rightarrow> Inl e
                           | Inr num \<Rightarrow> Inr (emplace_back (Number_tok num) (p1\<lparr>input_tokens := s1\<rparr>)))))))"

definition HandleSpecialSymbol :: "char \<Rightarrow> lex_failure + char" where
  "HandleSpecialSymbol ch =
     (if ch = CHR ''n'' then Inr (CHR 0x0A)
      else if ch = CHR ''t'' then Inr (CHR 0x09)
      else if ch = CHR ''r'' then Inr (CHR 0x0D)
      else if ch = CHR 0x22 then Inr (CHR 0x22)
      else if ch = CHR 0x5C then Inr (CHR 0x5C)
      else if ch = CHR 0x27 then Inr (CHR 0x27)
      else Inl (LexerError (''Unrecognized escape sequence '' @ [CHR 0x5C, ch])))"

text \<open>
  The loop of \<^verbatim>\<open>HandleString\<close>. After a backslash the next character is taken with
  \<^verbatim>\<open>get()\<close> and narrowed to \<^verbatim>\<open>char\<close>: at the end of the input that is the byte 255.
  When the input ends before the closing quote, the loop ends as it does at the quote.
\<close>

function read_string :: "char \<Rightarrow> string \<Rightarrow> istream \<Rightarrow> lex_failure + string \<times> istream" where
  "read_string begin_symbol str s =
     (case get s of
        (None, s1) \<Rightarrow> Inr (str, s1)
      | (Some symbol, s1) \<Rightarrow>
          (if symbol = begin_symbol then Inr (str, s1)
           else if symbol = CHR 0x5C then
             (case get s1 of
                (escaped, s2) \<Rightarrow>
                  (let special_symbol = (case escaped of None \<Rightarrow> CHR 0xFF | Some c \<Rightarrow> c) in
                   if special_symbol = CHR 0x00 then Inl (LexerError ''The line was not closed'')
                   else (case HandleSpecialSymbol special_symbol of
                           Inl e \<Rightarrow> Inl e
                         | Inr c \<Rightarrow> read_string begin_symbol (str @ [c]) s2)))
           else if symbol = CHR 0x0A \<or> symbol = CHR 0x0D then Inl (LexerError ''Unexpected end of line'')
           else read_string begin_symbol (str @ [symbol]) s1))"
  by pat_completeness auto
termination
  by (relation "measure (\<lambda>(b, w, s). length (chars s))")
     (auto simp add: get_def good_def split: if_splits list.splits)

declare read_string.simps [simp del]

definition HandleString :: "Parser \<Rightarrow> lex_failure + Parser" where
  "HandleString p =
     (case IsEof p of
        (True, p1) \<Rightarrow> Inr p1
      | (False, p1) \<Rightarrow>
          (case get (input_tokens p1) of
             (None, s) \<Rightarrow> Inr (p1\<lparr>input_tokens := s\<rparr>)
           | (Some begin_symbol, s) \<Rightarrow>
               (if begin_symbol \<noteq> CHR 0x27 \<and> begin_symbol \<noteq> CHR 0x22
                then Inr (p1\<lparr>input_tokens := putback begin_symbol s\<rparr>)
                else (case read_string begin_symbol [] s of
                        Inl e \<Rightarrow> Inl e
                      | Inr (str, s1) \<Rightarrow> Inr (emplace_back (String_tok str) (p1\<lparr>input_tokens := s1\<rparr>))))))"

definition HandleComments :: "Parser \<Rightarrow> Parser" where
  "HandleComments p =
     (case peek (input_tokens p) of
        (c, s) \<Rightarrow>
          (if c \<noteq> Some (CHR ''#'') then p\<lparr>input_tokens := s\<rparr>
           else (let p1 = p\<lparr>input_tokens := getline s\<rparr> in
                 if \<not> failbit (input_tokens p1) \<and> tokens p1 \<noteq> []
                    \<and> \<not> back_is Newline_tok p1 \<and> \<not> back_is Dedent_tok p1
                 then emplace_back Newline_tok p1 else p1)))"

definition HandleNewLine :: "Parser \<Rightarrow> Parser" where
  "HandleNewLine p =
     (case IsEof p of
        (True, p1) \<Rightarrow> p1
      | (False, p1) \<Rightarrow>
          (case peek (input_tokens p1) of
             (c, s) \<Rightarrow>
               (if c \<noteq> Some (CHR 0x0A) then p1\<lparr>input_tokens := s\<rparr>
                else (let p2 = p1\<lparr>input_tokens := snd (get s)\<rparr> in
                      if tokens p2 \<noteq> [] \<and> \<not> back_is Newline_tok p2
                      then emplace_back Newline_tok p2 else p2))))"

text \<open>
  \<^verbatim>\<open>HandleDent\<close> counts the spaces in a \<^verbatim>\<open>uint16_t\<close>, divides by
  \<^verbatim>\<open>NUM_SPACE_DENT_\<close> and keeps the difference to \<^verbatim>\<open>current_dent_\<close> in an
  \<^verbatim>\<open>int16_t\<close>.
\<close>

definition NUM_SPACE_DENT :: nat where
  "NUM_SPACE_DENT = 2"

function count_spaces :: "nat \<Rightarrow> istream \<Rightarrow> nat \<times> istream" where
  "count_spaces count_space s =
     (case peek s of
        (Some c, s1) \<Rightarrow>
          (if c = CHR '' '' then count_spaces ((count_space + 1) mod 65536) (snd (get s1))
           else (count_space, s1))
      | (None, s1) \<Rightarrow> (count_space, s1))"
  by pat_completeness auto
termination
  by (relation "measure (\<lambda>(n, s). length (chars s))")
     (auto simp add: peek_def get_def good_def split: if_splits list.splits)

declare count_spaces.simps [simp del]

definition to_int16 :: "int \<Rightarrow> int" where
  "to_int16 x = (x + 32768) mod 65536 - 32768"

fun indent_loop :: "nat \<Rightarrow> Parser \<Rightarrow> Parser" where
  "indent_loop 0 p = p"
| "indent_loop (Suc delta_dent) p =
     indent_loop delta_dent ((emplace_back Indent_tok p)\<lparr>current_dent := current_dent p + 1\<rparr>)"

fun dedent_loop :: "nat \<Rightarrow> Parser \<Rightarrow> lex_failure + Parser" where
  "dedent_loop 0 p = Inr p"
| "dedent_loop (Suc delta_dent) p =
     (if current_dent p = 0 then Inl assertion_failed
      else dedent_loop delta_dent ((emplace_back Dedent_tok p)\<lparr>current_dent := current_dent p - 1\<rparr>))"

definition HandleDent :: "Parser \<Rightarrow> lex_failure + Parser" where
  "HandleDent p =
     (if tokens p \<noteq> [] \<and> \<not> back_is Newline_tok p then Inr p
      else (case peek (input_tokens p) of
              (c, s) \<Rightarrow>
                (if c = Some (CHR 0x0A) then Inr (p\<lparr>input_tokens := s\<rparr>)
                 else (case count_spaces 0 s of
                         (count_space, s1) \<Rightarrow>
                           (if count_space mod NUM_SPACE_DENT \<noteq> 0
                            then Inl (LexerError
                                   (''One of the indents contains an odd number of spaces. Num space = ''
                                      @ show_nat count_space))
                            else (let delta_dent = to_int16 (int (count_space div NUM_SPACE_DENT) - current_dent p);
                                      p1 = p\<lparr>input_tokens := s1\<rparr>
                                  in if delta_dent > 0 then Inr (indent_loop (nat delta_dent) p1)
                                     else dedent_loop (nat (- delta_dent)) p1))))))"

subsection \<open>ParseTokens\<close>

definition handle_all :: "Parser \<Rightarrow> lex_failure + Parser" where
  "handle_all p =
     (case HandleIntValue (HandleOperatorEqOrSymbol (HandleKeywordOrId p)) of
        Inl e \<Rightarrow> Inl e
      | Inr p1 \<Rightarrow>
          (case HandleString p1 of
             Inl e \<Rightarrow> Inl e
           | Inr p2 \<Rightarrow> HandleDent (HandleNewLine (HandleComments (RemovingSpacesBeforeTokens p2)))))"

text \<open>
  The loop \<^verbatim>\<open>while (input_tokens_)\<close>. A character that no handler takes (a tab, say)
  stays at the front of the input, and the loop does not end: the loop takes fuel.
\<close>

fun ParseTokens_loop :: "nat \<Rightarrow> Parser \<Rightarrow> Parser lexing" where
  "ParseTokens_loop 0 p = NoFuel"
| "ParseTokens_loop (Suc n) p =
     (if failbit (input_tokens p) then Lexed p
      else (case handle_all p of
              Inl e \<Rightarrow> Raised e
            | Inr p1 \<Rightarrow> ParseTokens_loop n p1))"

definition ParseTokens :: "nat \<Rightarrow> Parser \<Rightarrow> Parser lexing" where
  "ParseTokens n p =
     (case ParseTokens_loop n (RemovingSpacesBeforeTokens p) of
        Lexed p1 \<Rightarrow>
          Lexed (emplace_back Eof_tok
            (if tokens p1 \<noteq> [] \<and> \<not> back_is Newline_tok p1 \<and> \<not> back_is Dedent_tok p1
             then emplace_back Newline_tok p1 else p1))
      | Raised e \<Rightarrow> Raised e
      | NoFuel \<Rightarrow> NoFuel)"

text \<open>The constructor of \<^verbatim>\<open>Lexer\<close> on an input text: the tokens it holds afterwards.\<close>

definition Lexer :: "nat \<Rightarrow> string \<Rightarrow> token list lexing" where
  "Lexer n input =
     (case ParseTokens n \<lparr>input_tokens = \<lparr>chars = input, eofbit = False, failbit = False\<rparr>,
                           tokens = [], current_dent = 0\<rparr> of
        Lexed p \<Rightarrow> Lexed (tokens p)
      | Raised e \<Rightarrow> Raised e
      | NoFuel \<Rightarrow> NoFuel)"

text \<open>
  The surplus of \<^verbatim>\<open>Indent\<close> over \<^verbatim>\<open>Dedent\<close> tokens among the tokens made so far.
\<close>

definition dent_balance :: "Parser \<Rightarrow> int" where
  "dent_balance p = int (count_list (tokens p) Indent_tok) - int (count_list (tokens p) Dedent_tok)"

section \<open>Example classes, states and programs\<close>

text \<open>A state whose instances all belong to one class, with no fields and no output yet.\<close>

definition example_state :: "cls \<Rightarrow> state" where
  "example_state k = \<lparr>instances = (\<lambda>a. \<lparr>class_of = k, Fields = Map.empty\<rparr>), output_stream = []\<rparr>"

definition Plain :: cls where
  "Plain = Cls ''Plain'' [] None"


text \<open>
  \<^verbatim>\<open>class Factory:\<close> with \<^verbatim>\<open>def make():\<close> \<^verbatim>\<open>return Plain()\<close>; the node \<^verbatim>\<open>Plain()\<close>
  keeps its instance at address 1, and the node \<^verbatim>\<open>Factory()\<close> of the program below at
  address 0. The program is
  \<^verbatim>\<open>f = Factory()\<close>, \<^verbatim>\<open>a = f.make()\<close>, \<^verbatim>\<open>b = f.make()\<close>, \<^verbatim>\<open>a.v = 7\<close>.
\<close>

definition Factory :: cls where
  "Factory = Cls ''Factory'' [Method ''make'' [] (MethodBody (Compound [Return (NewInstance 1 [])]))] None"

definition factory_state :: state where
  "factory_state =
     \<lparr>instances = (\<lambda>a. if a = 0 then \<lparr>class_of = Factory, Fields = Map.empty\<rparr>
                         else \<lparr>class_of = Plain, Fields = Map.empty\<rparr>),
      output_stream = []\<rparr>"

definition factory_program :: stmt where
  "factory_program = Compound
     [Assignment ''f'' (NewInstance 0 []),
      Assignment ''a'' (MethodCall (VariableValue [''f'']) ''make'' []),
      Assignment ''b'' (MethodCall (VariableValue [''f'']) ''make'' []),
      FieldAssignment [''a''] ''v'' (NumericConst 7)]"

text \<open>\<^verbatim>\<open>class Cell:\<close> with \<^verbatim>\<open>def __init__(v):\<close> \<^verbatim>\<open>self.v = v\<close>.\<close>

definition Cell :: cls where
  "Cell = Cls ''Cell''
     [Method ''__init__'' [''v'']
        (MethodBody (Compound [FieldAssignment [''self''] ''v'' (VariableValue [''v''])]))]
     None"

text \<open>
  \<^verbatim>\<open>class Same:\<close> answers \<^verbatim>\<open>__eq__\<close> with \<^verbatim>\<open>True\<close> and \<^verbatim>\<open>__lt__\<close> with \<^verbatim>\<open>False\<close>;
  \<^verbatim>\<open>class Odd:\<close> answers \<^verbatim>\<open>__eq__\<close> with the number 1.
\<close>

definition Same :: cls where
  "Same = Cls ''Same''
     [Method ''__eq__'' [''other''] (MethodBody (Compound [Return (BoolConst True)])),
      Method ''__lt__'' [''other''] (MethodBody (Compound [Return (BoolConst False)]))]
     None"

definition Odd :: cls where
  "Odd = Cls ''Odd'' [Method ''__eq__'' [''other''] (MethodBody (Compound [Return (NumericConst 1)]))] None"

section \<open>Properties of the evaluator\<close>

lemma and_then_simps [simp]:
  "and_then (Normal v, w) f = f v w"
  "and_then (Throw t, w) f = (Throw t, w)"
  "and_then (Undefined u, w) f = (Undefined u, w)"
  "and_then (OutOfFuel, w) f = (OutOfFuel, w)"
  "and_then (NotModelled, w) f = (NotModelled, w)"
  by (simp_all add: and_then_def)

lemmas node_defs = Execute_node_def VariableValue_Execute_def Assignment_Execute_def
  FieldAssignment_Execute_def Print_Execute_def MethodCall_Execute_def NewInstance_Execute_def
  Stringify_Execute_def after_temporary_def MethodBody_Execute_def Return_Execute_def IfElse_Execute_def
  Call_def HasMethod_def bind_params_def Print_obj_def Own_def Share_def
  TryAs_ClassInstance_def TryAs_Bool_def touch_field_def set_field_def

subsection \<open>NewInstance\<close>

text \<open>The arguments of a call are evaluated from left to right, each in the closure and state the one before left.\<close>

lemma exec_args_append:
  "exec_args ex (xs @ ys) c s =
     and_then (exec_args ex xs c s)
       (\<lambda>vs (c1, s1). and_then (exec_args ex ys c1 s1) (\<lambda>ws w. (Normal (vs @ ws), w)))"
proof (induction xs arbitrary: c s)
  case Nil
  show ?case
  proof (cases "exec_args ex ys c s")
    case (fields r c' s')
    then show ?thesis by (cases r) simp_all
  qed
next
  case (Cons x xs)
  show ?case
  proof (cases "ex x c s")
    case outer: (fields r c' s')
    show ?thesis
    proof (cases r)
      case (Normal v)
      obtain r1 c1 s1 where e1: "exec_args ex xs c' s' = (r1, c1, s1)"
        by (cases "exec_args ex xs c' s'") auto
      show ?thesis
      proof (cases r1)
        case inner: (Normal vs)
        obtain r2 w2 where e2: "exec_args ex ys c1 s1 = (r2, w2)"
          by (cases "exec_args ex ys c1 s1") auto
        from outer Normal e1 inner e2 Cons.IH [of c' s'] show ?thesis
          by (cases r2) simp_all
      qed (use outer Normal e1 Cons.IH [of c' s'] in simp_all)
    qed (use outer in simp_all)
  qed
qed

text \<open>
  Claim C1 says that every execution of a \<^verbatim>\<open>NewInstance\<close> node allocates a fresh
  instance, so that two executions of one node give two distinct instances. In the
  program below the node \<^verbatim>\<open>Plain()\<close> inside \<^verbatim>\<open>make\<close> runs twice: \<open>a\<close> and \<open>b\<close> end up
  holding the same instance (the one at address 1), and the field stored through \<open>a\<close>
  is read back through \<open>b\<close>.
\<close>

theorem NewInstance_fresh_counterexample:
  "(case Execute (Suc (Suc (Suc (Suc (Suc (Suc (Suc (Suc 0)))))))) factory_program Map.empty factory_state of
      (r, c, s) \<Rightarrow>
        r = Normal None \<and> c ''a'' = Some (Share 1) \<and> c ''b'' = Some (Share 1)
        \<and> VariableValue_loop s [''b'', ''v''] c = Normal (Own (Number 7)))"
  by (simp add: factory_program_def factory_state_def Factory_def Plain_def node_defs)

text \<open>
  Claim C1, amended: a \<^verbatim>\<open>NewInstance\<close> node owns one instance, made when the node is
  constructed. Executing the node: if the class of that instance (inherited methods
  included) has no \<^verbatim>\<open>__init__\<close> of arity \<open>|args|\<close>, nothing is evaluated; otherwise the
  arguments are evaluated from left to right and \<^verbatim>\<open>__init__\<close> is called on the node's
  instance. Whenever the execution returns, the result is a shared holder on the node's
  own instance, so two executions of one node give the same instance.
\<close>

theorem NewInstance_shares_member:
  "(\<not> HasMethod (instances s a) ''__init__'' (length args)
      \<longrightarrow> Execute (Suc n) (NewInstance a args) c s = (Normal (Share a), c, s))
   \<and> (HasMethod (instances s a) ''__init__'' (length args)
        \<and> exec_args (Execute n) args c s = (Normal actual_args, c1, s1)
        \<and> Call (Execute n) a ''__init__'' actual_args s1 = (Normal r, s2)
      \<longrightarrow> Execute (Suc n) (NewInstance a args) c s = (Normal (Share a), c1, s2))
   \<and> (Execute (Suc n) (NewInstance a args) c s = (Normal h, c', s') \<longrightarrow> h = Share a)"
proof -
  have third: "h = Share a" if "NewInstance_Execute (Execute n) a args c s = (Normal h, c', s')"
  proof (cases "HasMethod (instances s a) ''__init__'' (length args)")
    case False
    with that show ?thesis by (simp add: NewInstance_Execute_def)
  next
    case True
    obtain r1 c1 s1 where e1: "exec_args (Execute n) args c s = (r1, c1, s1)"
      by (cases "exec_args (Execute n) args c s") auto
    show ?thesis
    proof (cases r1)
      case (Normal vs)
      obtain r2 s2 where e2: "Call (Execute n) a ''__init__'' vs s1 = (r2, s2)"
        by (cases "Call (Execute n) a ''__init__'' vs s1") auto
      from that True e1 Normal e2 show ?thesis
        by (cases r2) (simp_all add: NewInstance_Execute_def)
    qed (use that True e1 in \<open>simp_all add: NewInstance_Execute_def\<close>)
  qed
  have "Execute (Suc n) (NewInstance a args) c s = NewInstance_Execute (Execute n) a args c s"
    by (simp add: Execute_node_def)
  moreover have "\<not> HasMethod (instances s a) ''__init__'' (length args)
      \<longrightarrow> NewInstance_Execute (Execute n) a args c s = (Normal (Share a), c, s)"
    by (simp add: NewInstance_Execute_def)
  moreover have "HasMethod (instances s a) ''__init__'' (length args)
        \<and> exec_args (Execute n) args c s = (Normal actual_args, c1, s1)
        \<and> Call (Execute n) a ''__init__'' actual_args s1 = (Normal r, s2)
      \<longrightarrow> NewInstance_Execute (Execute n) a args c s = (Normal (Share a), c1, s2)"
    by (simp add: NewInstance_Execute_def)
  ultimately show ?thesis
    using third by presburger
qed

theorem NewInstance_shares_member_witness:
  "\<not> HasMethod (instances (example_state Plain) 0) ''__init__'' (length ([] :: stmt list))
   \<and> Execute (Suc 0) (NewInstance 0 []) Map.empty (example_state Plain)
       = (Normal (Share 0), Map.empty, example_state Plain)
   \<and> HasMethod (instances (example_state Cell) 0) ''__init__'' (length [NumericConst 4])
   \<and> Execute (Suc (Suc (Suc (Suc (Suc 0))))) (NewInstance 0 [NumericConst 4]) Map.empty (example_state Cell)
       = (Normal (Share 0), Map.empty, set_field 0 ''v'' (Own (Number 4)) (example_state Cell))"
proof -
  let ?n = "Suc (Suc (Suc (Suc 0)))"
  have h1: "\<not> HasMethod (instances (example_state Plain) 0) ''__init__'' (length ([] :: stmt list))"
    by (simp add: example_state_def Plain_def HasMethod_def)
  have h2: "HasMethod (instances (example_state Cell) 0) ''__init__'' (length [NumericConst 4])"
    by (simp add: example_state_def Cell_def HasMethod_def)
  have h3: "exec_args (Execute ?n) [NumericConst 4] Map.empty (example_state Cell)
              = (Normal [Own (Number 4)], Map.empty, example_state Cell)"
    by (simp add: Execute_node_def)
  have h4: "Call (Execute ?n) 0 ''__init__'' [Own (Number 4)] (example_state Cell)
              = (Normal None, set_field 0 ''v'' (Own (Number 4)) (example_state Cell))"
    by (simp add: example_state_def Cell_def node_defs)
  note no_init = NewInstance_shares_member [of "example_state Plain" 0 "[]" 0 Map.empty,
      THEN conjunct1, rule_format, OF h1]
  note with_init = NewInstance_shares_member [of "example_state Cell" 0 "[NumericConst 4]" ?n Map.empty,
      THEN conjunct2, THEN conjunct1, rule_format, OF conjI [OF h2 conjI [OF h3 h4]]]
  from no_init with_init h1 h2 show ?thesis by blast
qed

subsection \<open>Stringify\<close>


text \<open>
  The pointer that \<^verbatim>\<open>Stringify::Execute\<close> prints through outlives the holder it was taken
  from. In \<^verbatim>\<open>str(1 + 2)\<close> the sum has no other owner, and \<^verbatim>\<open>Print\<close> is called on a
  destroyed object; in \<^verbatim>\<open>str(x)\<close> the closure keeps the value of \<open>x\<close>.
\<close>

lemma Stringify_of_temporary:
  "Execute (Suc (Suc (Suc 0))) (Stringify (Add (NumericConst 1) (NumericConst 2))) Map.empty (example_state Plain)
     = (Undefined DanglingPointer, Map.empty, example_state Plain)"
  by (simp add: node_defs Add_Execute_def TryAsPair_def TryAs_Number_def int_result_def)



subsection \<open>VariableValue\<close>

text \<open>
  Claim C3 says that a dotted path with a missing name or with an intermediate value
  that is not a class instance raises a runtime error. The loop of
  \<^verbatim>\<open>VariableValue::Execute\<close> throws only after its last round; a failed step is passed
  over. With \<open>y\<close> bound to 5 in the scope, the path \<^verbatim>\<open>x.y\<close> evaluates to 5 both when
  \<open>x\<close> is not bound at all and when \<open>x\<close> is bound to the number 1.
\<close>

theorem VariableValue_skips_failed_steps:
  "Execute (Suc 0) (VariableValue [''x'', ''y'']) [''y'' \<mapsto> Own (Number 5)] (example_state Plain)
     = (Normal (Own (Number 5)), [''y'' \<mapsto> Own (Number 5)], example_state Plain)
   \<and> Execute (Suc 0) (VariableValue [''x'', ''y''])
        [''x'' \<mapsto> Own (Number 1), ''y'' \<mapsto> Own (Number 5)] (example_state Plain)
     = (Normal (Own (Number 5)), [''x'' \<mapsto> Own (Number 1), ''y'' \<mapsto> Own (Number 5)], example_state Plain)"
  by (simp add: Execute_node_def VariableValue_Execute_def Own_def TryAs_ClassInstance_def)

subsection \<open>FieldAssignment\<close>

text \<open>
  Claim C4: \<^verbatim>\<open>FieldAssignment(object_var, field, rhs)\<close> resolves \<open>object_var\<close>; when the
  value is not a class instance it throws a runtime error; when it is the instance at
  \<open>a\<close>, it evaluates \<open>rhs\<close>, stores the value under \<open>field\<close> in the fields of that
  instance, binds \<open>field\<close> to the same value in the closure the statement runs in, and
  returns the value.
\<close>

theorem FieldAssignment_stores:
  "(VariableValue_loop s object c = Normal obj \<and> TryAs_ClassInstance obj = None
      \<longrightarrow> Execute (Suc n) (FieldAssignment object field_name rv) c s =
            (Throw (runtime_error ''FieldAssignment::Execute. The object is not a custom type''), c, s))
   \<and> (VariableValue_loop s object c = Normal (Share a)
        \<and> Execute n rv c (touch_field a field_name s) = (Normal v, c1, s1)
      \<longrightarrow> Execute (Suc n) (FieldAssignment object field_name rv) c s =
            (Normal v, c1(field_name \<mapsto> v), set_field a field_name v s1)
          \<and> Fields (instances (set_field a field_name v s1) a) field_name = Some v
          \<and> (c1(field_name \<mapsto> v)) field_name = Some v)"
  by (simp add: Execute_node_def FieldAssignment_Execute_def VariableValue_Execute_def
        TryAs_ClassInstance_def Share_def set_field_def)

theorem FieldAssignment_stores_witness:
  "VariableValue_loop (example_state Plain) [''p''] [''p'' \<mapsto> Own (Number 1)] = Normal (Own (Number 1))
   \<and> TryAs_ClassInstance (Own (Number 1)) = None
   \<and> Execute (Suc (Suc 0)) (FieldAssignment [''p''] ''x'' (NumericConst 3))
        [''p'' \<mapsto> Own (Number 1)] (example_state Plain)
       = (Throw (runtime_error ''FieldAssignment::Execute. The object is not a custom type''),
          [''p'' \<mapsto> Own (Number 1)], example_state Plain)
   \<and> VariableValue_loop (example_state Plain) [''p''] [''p'' \<mapsto> Share 0] = Normal (Share 0)
   \<and> Execute (Suc (Suc 0)) (FieldAssignment [''p''] ''x'' (NumericConst 3))
        [''p'' \<mapsto> Share 0] (example_state Plain)
       = (Normal (Own (Number 3)), [''p'' \<mapsto> Share 0, ''x'' \<mapsto> Own (Number 3)],
          set_field 0 ''x'' (Own (Number 3)) (touch_field 0 ''x'' (example_state Plain)))
   \<and> Fields (instances (set_field 0 ''x'' (Own (Number 3)) (touch_field 0 ''x'' (example_state Plain))) 0) ''x''
       = Some (Own (Number 3))"
proof -
  have h1: "VariableValue_loop (example_state Plain) [''p''] [''p'' \<mapsto> Own (Number 1)]
              = Normal (Own (Number 1))"
    by simp
  have h2: "TryAs_ClassInstance (Own (Number 1)) = None"
    by (simp add: TryAs_ClassInstance_def Own_def)
  have h3: "VariableValue_loop (example_state Plain) [''p''] [''p'' \<mapsto> Share 0] = Normal (Share 0)"
    by simp
  have h4: "Execute (Suc 0) (NumericConst 3) [''p'' \<mapsto> Share 0] (touch_field 0 ''x'' (example_state Plain))
              = (Normal (Own (Number 3)), [''p'' \<mapsto> Share 0], touch_field 0 ''x'' (example_state Plain))"
    by (simp add: Execute_node_def)
  note not_instance = FieldAssignment_stores [of "example_state Plain" "[''p'']"
        "[''p'' \<mapsto> Own (Number 1)]" "Own (Number 1)" "Suc 0" "''x''" "NumericConst 3",
      THEN conjunct1, rule_format, OF conjI [OF h1 h2]]
  note stored = FieldAssignment_stores [of "example_state Plain" "[''p'']"
        "[''p'' \<mapsto> Share 0]" _ "Suc 0" "''x''" "NumericConst 3" 0,
      THEN conjunct2, rule_format, OF conjI [OF h3 h4]]
  from not_instance stored h1 h2 h3 show ?thesis by simp
qed

subsection \<open>Or\<close>

text \<open>
  Claim C7: in \<^verbatim>\<open>a or b\<close>, when \<open>a\<close> evaluates to a true \<^verbatim>\<open>Bool\<close> the result is
  \<^verbatim>\<open>Bool(true)\<close> and \<open>b\<close> is not evaluated: whatever \<open>b\<close> is, closure and state are
  those that \<open>a\<close> left. When \<open>a\<close> evaluates to anything else, \<open>b\<close> is evaluated after
  it and the result is \<^verbatim>\<open>Bool(true)\<close> if \<open>b\<close> gave a true \<^verbatim>\<open>Bool\<close> and
  \<^verbatim>\<open>Bool(false)\<close> otherwise.
\<close>

theorem Or_short_circuit:
  "(Execute n a c s = (Normal (Own (Bool True)), c1, s1)
      \<longrightarrow> Execute (Suc n) (Or a b) c s = (Normal (Own (Bool True)), c1, s1))
   \<and> (Execute n a c s = (Normal h, c1, s1) \<and> h \<noteq> Own (Bool True)
        \<and> Execute n b c1 s1 = (Normal h', c2, s2)
      \<longrightarrow> Execute (Suc n) (Or a b) c s = (Normal (Own (Bool (h' = Own (Bool True)))), c2, s2))"
  by (auto simp add: Execute_node_def Or_Execute_def Own_def TryAs_Bool_def
        split: option.splits obj.splits)

theorem Or_short_circuit_witness:
  "Execute (Suc (Suc (Suc 0))) (BoolConst True) Map.empty (example_state Plain)
       = (Normal (Own (Bool True)), Map.empty, example_state Plain)
   \<and> Execute (Suc (Suc (Suc (Suc 0)))) (Or (BoolConst True) (Print [StringConst ''seen'']))
         Map.empty (example_state Plain)
       = (Normal (Own (Bool True)), Map.empty, example_state Plain)
   \<and> Execute (Suc (Suc (Suc 0))) (NumericConst 1) Map.empty (example_state Plain)
       = (Normal (Own (Number 1)), Map.empty, example_state Plain)
   \<and> Own (Number 1) \<noteq> Own (Bool True)
   \<and> Execute (Suc (Suc (Suc 0))) (Print [StringConst ''seen'']) Map.empty (example_state Plain)
       = (Normal (Own (String ''seen'')), Map.empty,
          (example_state Plain)\<lparr>output_stream := ''seen'' @ [CHR 0x0A]\<rparr>)
   \<and> Execute (Suc (Suc (Suc (Suc 0)))) (Or (NumericConst 1) (Print [StringConst ''seen'']))
         Map.empty (example_state Plain)
       = (Normal (Own (Bool False)), Map.empty,
          (example_state Plain)\<lparr>output_stream := ''seen'' @ [CHR 0x0A]\<rparr>)"
proof -
  let ?n = "Suc (Suc (Suc 0))"
  let ?s = "example_state Plain"
  let ?s' = "(example_state Plain)\<lparr>output_stream := ''seen'' @ [CHR 0x0A]\<rparr>"
  have h1: "Execute ?n (BoolConst True) Map.empty ?s = (Normal (Own (Bool True)), Map.empty, ?s)"
    by (simp add: Execute_node_def)
  have h2: "Execute ?n (NumericConst 1) Map.empty ?s = (Normal (Own (Number 1)), Map.empty, ?s)"
    by (simp add: Execute_node_def)
  have h3: "Own (Number 1) \<noteq> Own (Bool True)"
    by (simp add: Own_def)
  have h4: "Execute ?n (Print [StringConst ''seen'']) Map.empty ?s
              = (Normal (Own (String ''seen'')), Map.empty, ?s')"
    by (simp add: example_state_def node_defs)
  have h5: "(Own (String ''seen'') = Own (Bool True)) = False"
    by (simp add: Own_def)
  note skipped = Or_short_circuit [of ?n "BoolConst True" Map.empty ?s Map.empty ?s
        "Print [StringConst ''seen'']",
      THEN conjunct1, rule_format, OF h1]
  note evaluated = Or_short_circuit [of ?n "NumericConst 1" Map.empty ?s Map.empty ?s
        "Print [StringConst ''seen'']" "Own (Number 1)" "Own (String ''seen'')" Map.empty ?s',
      THEN conjunct2, rule_format, OF conjI [OF h2 conjI [OF h3 h4]]]
  from skipped evaluated h1 h2 h3 h4 h5 show ?thesis by simp
qed

subsection \<open>Derived comparators\<close>

text \<open>
  Claim C8: where \<^verbatim>\<open>Equal\<close> and \<^verbatim>\<open>Less\<close> return, the derived comparators return
  \<^verbatim>\<open>NotEqual = !Equal\<close>, \<^verbatim>\<open>Greater = !Less && !Equal\<close>,
  \<^verbatim>\<open>LessOrEqual = Less || Equal\<close> and \<^verbatim>\<open>GreaterOrEqual = !Less\<close>. The second
  comparison of \<^verbatim>\<open>Greater\<close> and \<^verbatim>\<open>LessOrEqual\<close> runs in the state the first one left,
  and only when \<^verbatim>\<open>&&\<close> or \<^verbatim>\<open>||\<close> needs it.
\<close>

theorem derived_comparators:
  "(Equal (Execute n) a b s = (Normal e, s1)
      \<longrightarrow> NotEqual (Execute n) a b s = (Normal (\<not> e), s1))
   \<and> (Less (Execute n) a b s = (Normal l, s1) \<and> Equal (Execute n) a b s1 = (Normal e, s2)
      \<longrightarrow> Greater (Execute n) a b s = (Normal (\<not> l \<and> \<not> e), if l then s1 else s2))
   \<and> (Less (Execute n) a b s = (Normal l, s1) \<and> Equal (Execute n) a b s1 = (Normal e, s2)
      \<longrightarrow> LessOrEqual (Execute n) a b s = (Normal (l \<or> e), if l then s1 else s2))
   \<and> (Less (Execute n) a b s = (Normal l, s1)
      \<longrightarrow> GreaterOrEqual (Execute n) a b s = (Normal (\<not> l), s1))"
  by (simp add: NotEqual_def Greater_def LessOrEqual_def GreaterOrEqual_def)

theorem derived_comparators_witness:
  "Equal (Execute 0) (Own (Number 1)) (Own (Number 2)) (example_state Plain)
       = (Normal False, example_state Plain)
   \<and> Less (Execute 0) (Own (Number 1)) (Own (Number 2)) (example_state Plain)
       = (Normal True, example_state Plain)
   \<and> NotEqual (Execute 0) (Own (Number 1)) (Own (Number 2)) (example_state Plain)
       = (Normal True, example_state Plain)
   \<and> Greater (Execute 0) (Own (Number 1)) (Own (Number 2)) (example_state Plain)
       = (Normal False, example_state Plain)
   \<and> LessOrEqual (Execute 0) (Own (Number 1)) (Own (Number 2)) (example_state Plain)
       = (Normal True, example_state Plain)
   \<and> GreaterOrEqual (Execute 0) (Own (Number 1)) (Own (Number 2)) (example_state Plain)
       = (Normal False, example_state Plain)"
proof -
  let ?s = "example_state Plain"
  have e: "Equal (Execute 0) (Own (Number 1)) (Own (Number 2)) ?s = (Normal False, ?s)"
    by (simp add: Equal_def ComparatorImpl_def TryAsPair_def TryAs_Bool_def TryAs_Number_def
          Own_def compare_int_def)
  have l: "Less (Execute 0) (Own (Number 1)) (Own (Number 2)) ?s = (Normal True, ?s)"
    by (simp add: Less_def ComparatorImpl_def TryAsPair_def TryAs_Bool_def TryAs_Number_def
          Own_def compare_int_def)
  note all = derived_comparators [of 0 "Own (Number 1)" "Own (Number 2)" ?s False ?s True ?s]
  note ne = all [THEN conjunct1, rule_format, OF e]
  note gt = all [THEN conjunct2, THEN conjunct1, rule_format, OF conjI [OF l e]]
  note le = all [THEN conjunct2, THEN conjunct2, THEN conjunct1, rule_format, OF conjI [OF l e]]
  note ge = all [THEN conjunct2, THEN conjunct2, THEN conjunct2, rule_format, OF l]
  from e l ne gt le ge show ?thesis by simp
qed

subsection \<open>Return and MethodBody\<close>

lemma Compound_Execute_append:
  "Compound_Execute ex (xs @ ys) c s =
     and_then (Compound_Execute ex xs c s) (\<lambda>u (c1, s1). Compound_Execute ex ys c1 s1)"
proof (induction xs arbitrary: c s)
  case Nil
  then show ?case by simp
next
  case (Cons x xs)
  show ?case
  proof (cases "ex x c s")
    case (fields r c' s')
    then show ?thesis using Cons.IH by (cases r) simp_all
  qed
qed

text \<open>
  Claim C9: \<^verbatim>\<open>Return\<close> throws the value of its expression. A \<^verbatim>\<open>Compound\<close> (the root
  of a program is one) whose statement throws it passes it on and runs none of the
  statements after; an \<^verbatim>\<open>IfElse\<close> passes it on from either branch. So a \<^verbatim>\<open>return\<close> at
  the top level ends the run of the program with the thrown holder: the outcome is
  neither a runtime error nor a normal return. \<^verbatim>\<open>MethodBody\<close> is the node that turns
  the thrown holder into its own result.
\<close>

theorem Return_escapes:
  "(Execute n e c s = (Normal v, c1, s1)
      \<longrightarrow> Execute (Suc n) (Return e) c s = (Throw (ReturnValue v), c1, s1))
   \<and> (Compound_Execute (Execute n) before c s = (Normal u, c1, s1)
        \<and> Execute n st c1 s1 = (Throw (ReturnValue v), c2, s2)
      \<longrightarrow> Execute (Suc n) (Compound (before @ st # after)) c s = (Throw (ReturnValue v), c2, s2))
   \<and> (Execute n cond c s = (Normal (Own (Bool True)), c1, s1)
        \<and> Execute n if_body c1 s1 = (Throw (ReturnValue v), c2, s2)
      \<longrightarrow> Execute (Suc n) (IfElse cond if_body else_body) c s = (Throw (ReturnValue v), c2, s2))
   \<and> (Execute n cond c s = (Normal (Own (Bool False)), c1, s1)
        \<and> Execute n else_stmt c1 s1 = (Throw (ReturnValue v), c2, s2)
      \<longrightarrow> Execute (Suc n) (IfElse cond if_body (Some else_stmt)) c s = (Throw (ReturnValue v), c2, s2))
   \<and> (Execute n b c s = (Throw (ReturnValue v), c1, s1)
      \<longrightarrow> Execute (Suc n) (MethodBody b) c s = (Normal v, c1, s1))"
  by (simp add: Execute_node_def Return_Execute_def Compound_Execute_append IfElse_Execute_def
        MethodBody_Execute_def Own_def TryAs_Bool_def)

theorem Return_escapes_witness:
  "Execute (Suc (Suc (Suc 0))) (Compound [Assignment ''x'' (NumericConst 2), Return (NumericConst 1),
         Print [StringConst ''after'']]) Map.empty (example_state Plain)
       = (Throw (ReturnValue (Own (Number 1))), [''x'' \<mapsto> Own (Number 2)], example_state Plain)
   \<and> Execute (Suc (Suc (Suc 0))) (IfElse (BoolConst True) (Return (NumericConst 1)) None)
         Map.empty (example_state Plain)
       = (Throw (ReturnValue (Own (Number 1))), Map.empty, example_state Plain)
   \<and> Execute (Suc (Suc (Suc 0))) (IfElse (BoolConst False) None_stmt (Some (Return (NumericConst 1))))
         Map.empty (example_state Plain)
       = (Throw (ReturnValue (Own (Number 1))), Map.empty, example_state Plain)
   \<and> Execute (Suc (Suc (Suc 0))) (MethodBody (Return (NumericConst 1))) Map.empty (example_state Plain)
       = (Normal (Own (Number 1)), Map.empty, example_state Plain)"
proof -
  let ?n = "Suc 0"
  let ?s = "example_state Plain"
  have h1: "Execute ?n (NumericConst 1) Map.empty ?s = (Normal (Own (Number 1)), Map.empty, ?s)"
    by (simp add: Execute_node_def)
  have h1': "Execute ?n (NumericConst 1) [''x'' \<mapsto> Own (Number 2)] ?s
               = (Normal (Own (Number 1)), [''x'' \<mapsto> Own (Number 2)], ?s)"
    by (simp add: Execute_node_def)
  note ret = Return_escapes [of ?n "NumericConst 1" Map.empty ?s, THEN conjunct1, rule_format, OF h1]
  note ret' = Return_escapes [of ?n "NumericConst 1" "[''x'' \<mapsto> Own (Number 2)]" ?s,
      THEN conjunct1, rule_format, OF h1']
  have h2: "Compound_Execute (Execute (Suc ?n)) [Assignment ''x'' (NumericConst 2)] Map.empty ?s
              = (Normal None, [''x'' \<mapsto> Own (Number 2)], ?s)"
    by (simp add: Execute_node_def Assignment_Execute_def)
  have h3: "Execute (Suc ?n) (BoolConst True) Map.empty ?s = (Normal (Own (Bool True)), Map.empty, ?s)"
    by (simp add: Execute_node_def)
  have h4: "Execute (Suc ?n) (BoolConst False) Map.empty ?s = (Normal (Own (Bool False)), Map.empty, ?s)"
    by (simp add: Execute_node_def)
  note compound = Return_escapes [where n = "Suc ?n" and before = "[Assignment ''x'' (NumericConst 2)]"
        and st = "Return (NumericConst 1)" and after = "[Print [StringConst ''after'']]",
      THEN conjunct2, THEN conjunct1, rule_format, OF conjI [OF h2 ret']]
  note if_branch = Return_escapes [where n = "Suc ?n" and cond = "BoolConst True"
        and if_body = "Return (NumericConst 1)" and else_body = None,
      THEN conjunct2, THEN conjunct2, THEN conjunct1, rule_format, OF conjI [OF h3 ret]]
  note else_branch = Return_escapes [where n = "Suc ?n" and cond = "BoolConst False"
        and if_body = None_stmt and else_stmt = "Return (NumericConst 1)",
      THEN conjunct2, THEN conjunct2, THEN conjunct2, THEN conjunct1, rule_format, OF conjI [OF h4 ret]]
  note caught = Return_escapes [where n = "Suc ?n" and b = "Return (NumericConst 1)",
      THEN conjunct2, THEN conjunct2, THEN conjunct2, THEN conjunct2, rule_format, OF ret]
  from compound if_branch else_branch caught show ?thesis by simp
qed

subsection \<open>The result of \<^verbatim>\<open>__eq__\<close> and \<^verbatim>\<open>__lt__\<close>\<close>

lemma TryAsPair_instance [simp]:
  "TryAsPair TryAs_Bool (Share a) rhs = None"
  "TryAsPair TryAs_Number (Share a) rhs = None"
  "TryAsPair TryAs_String (Share a) rhs = None"
  by (simp_all add: TryAsPair_def Share_def TryAs_Bool_def TryAs_Number_def TryAs_String_def)

lemma ComparatorImpl_dispatch:
  assumes "HasMethod (instances s a) name 1"
    and "Call ex a name [rhs] s = (Normal h, s1)"
  shows "ComparatorImpl ex (Share a) rhs s f name =
           (case TryAs_Bool h of Some b \<Rightarrow> (Normal b, s1) | None \<Rightarrow> (Undefined NullDereference, s1))"
  using assms
  by (simp add: ComparatorImpl_def instance_with_method_def)
     (simp add: Share_def TryAs_ClassInstance_def)

text \<open>
  Claim C10: when \<^verbatim>\<open>Equal\<close> or \<^verbatim>\<open>Less\<close> hands the comparison to \<^verbatim>\<open>__eq__\<close> or
  \<^verbatim>\<open>__lt__\<close> of a class instance and the method returns the holder \<open>h\<close>, the result is
  read with \<^verbatim>\<open>TryAs<Bool>()->GetValue()\<close>: if \<open>h\<close> holds a \<^verbatim>\<open>Bool\<close>, the comparator
  returns exactly its value; if it holds anything else or nothing, the call dereferences
  a null pointer.
\<close>

theorem dunder_result_unchecked:
  "(HasMethod (instances s a) ''__eq__'' 1
      \<and> Call (Execute n) a ''__eq__'' [rhs] s = (Normal h, s1)
      \<longrightarrow> Equal (Execute n) (Share a) rhs s =
            (case TryAs_Bool h of Some b \<Rightarrow> (Normal b, s1) | None \<Rightarrow> (Undefined NullDereference, s1)))
   \<and> (HasMethod (instances s a) ''__lt__'' 1
      \<and> Call (Execute n) a ''__lt__'' [rhs] s = (Normal h, s1)
      \<longrightarrow> Less (Execute n) (Share a) rhs s =
            (case TryAs_Bool h of Some b \<Rightarrow> (Normal b, s1) | None \<Rightarrow> (Undefined NullDereference, s1)))"
  by (simp add: Equal_def Less_def ComparatorImpl_dispatch) (simp add: Share_def)

theorem dunder_result_unchecked_witness:
  "HasMethod (instances (example_state Same) 0) ''__eq__'' 1
   \<and> Equal (Execute (Suc (Suc (Suc (Suc 0))))) (Share 0) (Own (Number 3)) (example_state Same)
       = (Normal True, example_state Same)
   \<and> HasMethod (instances (example_state Same) 0) ''__lt__'' 1
   \<and> Less (Execute (Suc (Suc (Suc (Suc 0))))) (Share 0) (Own (Number 3)) (example_state Same)
       = (Normal False, example_state Same)
   \<and> HasMethod (instances (example_state Odd) 0) ''__eq__'' 1
   \<and> Equal (Execute (Suc (Suc (Suc (Suc 0))))) (Share 0) (Own (Number 3)) (example_state Odd)
       = (Undefined NullDereference, example_state Odd)"
proof -
  let ?n = "Suc (Suc (Suc (Suc 0)))"
  have m1: "HasMethod (instances (example_state Same) 0) ''__eq__'' 1"
    by (simp add: example_state_def Same_def HasMethod_def)
  have m2: "HasMethod (instances (example_state Same) 0) ''__lt__'' 1"
    by (simp add: example_state_def Same_def HasMethod_def)
  have m3: "HasMethod (instances (example_state Odd) 0) ''__eq__'' 1"
    by (simp add: example_state_def Odd_def HasMethod_def)
  have c1: "Call (Execute ?n) 0 ''__eq__'' [Own (Number 3)] (example_state Same)
              = (Normal (Own (Bool True)), example_state Same)"
    by (simp add: example_state_def Same_def node_defs)
  have c2: "Call (Execute ?n) 0 ''__lt__'' [Own (Number 3)] (example_state Same)
              = (Normal (Own (Bool False)), example_state Same)"
    by (simp add: example_state_def Same_def node_defs)
  have c3: "Call (Execute ?n) 0 ''__eq__'' [Own (Number 3)] (example_state Odd)
              = (Normal (Own (Number 1)), example_state Odd)"
    by (simp add: example_state_def Odd_def node_defs)
  note eq = dunder_result_unchecked [of "example_state Same" 0 ?n "Own (Number 3)",
      THEN conjunct1, rule_format, OF conjI [OF m1 c1]]
  note lt = dunder_result_unchecked [of "example_state Same" 0 ?n "Own (Number 3)",
      THEN conjunct2, rule_format, OF conjI [OF m2 c2]]
  note odd = dunder_result_unchecked [of "example_state Odd" 0 ?n "Own (Number 3)",
      THEN conjunct1, rule_format, OF conjI [OF m3 c3]]
  from eq lt odd m1 m2 m3 show ?thesis by (simp add: Own_def TryAs_Bool_def)
qed

section \<open>Properties of the lexer\<close>

lemmas stream_defs = peek_def get_def putback_def getline_def good_def IsEof_def
  emplace_back_def back_is_def

lemmas char_defs = isdigit_def isalpha_def isalnum_def ispunct_def

lemmas handler_defs = HandleKeywordOrId_def HandleOperatorEqOrSymbol_def HandleIntValue_def
  HandleString_def HandleComments_def HandleNewLine_def HandleDent_def handle_all_def
  ParseTokens_def Lexer_def token_types_def two_char_operator_def stoi_def digits_value_def
  NUM_SPACE_DENT_def to_int16_def

lemmas loop_simps = RemovingSpacesBeforeTokens.simps ReadWord.simps read_digits.simps
  read_string.simps count_spaces.simps

subsection \<open>Indents and dedents\<close>

text \<open>
  Only \<^verbatim>\<open>HandleDent\<close> makes \<^verbatim>\<open>Indent\<close> and \<^verbatim>\<open>Dedent\<close> tokens, and it moves
  \<^verbatim>\<open>current_dent_\<close> by one with each: the surplus of \<^verbatim>\<open>Indent\<close> tokens stays equal to
  \<^verbatim>\<open>current_dent_\<close> all through \<^verbatim>\<open>ParseTokens\<close>.
\<close>

lemma balance_stream [simp]:
  "dent_balance (p\<lparr>input_tokens := s\<rparr>) = dent_balance p"
  by (simp add: dent_balance_def)

lemma balance_emplace_back:
  "t \<noteq> Indent_tok \<Longrightarrow> t \<noteq> Dedent_tok \<Longrightarrow> dent_balance (emplace_back t p) = dent_balance p"
  by (simp add: dent_balance_def emplace_back_def count_list_append)

lemma current_dent_emplace_back [simp]: "current_dent (emplace_back t p) = current_dent p"
  by (simp add: emplace_back_def)

lemma keyword_not_dent: "token_types w = Some t \<Longrightarrow> t \<noteq> Indent_tok \<and> t \<noteq> Dedent_tok"
  by (auto simp add: token_types_def split: if_splits)

lemma operator_not_dent: "two_char_operator c = Some t \<Longrightarrow> t \<noteq> Indent_tok \<and> t \<noteq> Dedent_tok"
  by (auto simp add: two_char_operator_def split: if_splits)

lemma RemovingSpaces_keeps:
  "dent_balance (RemovingSpacesBeforeTokens p) = dent_balance p
   \<and> current_dent (RemovingSpacesBeforeTokens p) = current_dent p"
proof (induction p rule: RemovingSpacesBeforeTokens.induct)
  case (1 p)
  then show ?case
    by (auto simp add: RemovingSpacesBeforeTokens.simps [of p] split: prod.splits option.splits)
qed

lemma IsEof_keeps:
  "IsEof p = (b, p1) \<Longrightarrow> dent_balance p1 = dent_balance p \<and> current_dent p1 = current_dent p"
  by (auto simp add: IsEof_def split: prod.splits)

lemma HandleKeywordOrId_keeps:
  "dent_balance (HandleKeywordOrId p) = dent_balance p
   \<and> current_dent (HandleKeywordOrId p) = current_dent p"
  by (auto simp add: HandleKeywordOrId_def balance_emplace_back dest!: IsEof_keeps keyword_not_dent
        split: prod.splits option.splits bool.splits)

lemma HandleOperatorEqOrSymbol_keeps:
  "dent_balance (HandleOperatorEqOrSymbol p) = dent_balance p
   \<and> current_dent (HandleOperatorEqOrSymbol p) = current_dent p"
  by (auto simp add: HandleOperatorEqOrSymbol_def balance_emplace_back dest!: IsEof_keeps operator_not_dent
        split: prod.splits option.splits bool.splits)

lemma HandleIntValue_keeps:
  "HandleIntValue p = Inr p' \<Longrightarrow> dent_balance p' = dent_balance p \<and> current_dent p' = current_dent p"
  by (auto simp add: HandleIntValue_def balance_emplace_back dest!: IsEof_keeps
        split: prod.splits option.splits bool.splits sum.splits if_splits)

lemma HandleString_keeps:
  "HandleString p = Inr p' \<Longrightarrow> dent_balance p' = dent_balance p \<and> current_dent p' = current_dent p"
  by (auto simp add: HandleString_def balance_emplace_back dest!: IsEof_keeps
        split: prod.splits option.splits bool.splits sum.splits if_splits)

lemma HandleComments_keeps:
  "dent_balance (HandleComments p) = dent_balance p \<and> current_dent (HandleComments p) = current_dent p"
  by (auto simp add: HandleComments_def Let_def balance_emplace_back split: prod.splits)

lemma HandleNewLine_keeps:
  "dent_balance (HandleNewLine p) = dent_balance p \<and> current_dent (HandleNewLine p) = current_dent p"
  by (auto simp add: HandleNewLine_def Let_def balance_emplace_back dest!: IsEof_keeps
        split: prod.splits bool.splits)

lemma indent_loop_balance:
  "dent_balance (indent_loop d p) - current_dent (indent_loop d p) = dent_balance p - current_dent p"
  by (induction d arbitrary: p) (simp_all add: dent_balance_def emplace_back_def count_list_append)

lemma dedent_loop_balance:
  "dedent_loop d p = Inr p' \<Longrightarrow> dent_balance p' - current_dent p' = dent_balance p - current_dent p"
proof (induction d arbitrary: p)
  case 0
  then show ?case by simp
next
  case (Suc d)
  from Suc.prems have step: "dedent_loop d ((emplace_back Dedent_tok p)\<lparr>current_dent := current_dent p - 1\<rparr>) = Inr p'"
    by (simp split: if_splits)
  from Suc.IH [OF step] show ?case
    by (simp add: dent_balance_def emplace_back_def count_list_append)
qed

lemma HandleDent_balance:
  "HandleDent p = Inr p' \<Longrightarrow> dent_balance p' - current_dent p' = dent_balance p - current_dent p"
  by (auto simp add: HandleDent_def Let_def indent_loop_balance dest!: dedent_loop_balance
        split: prod.splits if_splits)

lemma handle_all_balance:
  assumes "handle_all p = Inr p'"
  shows "dent_balance p' - current_dent p' = dent_balance p - current_dent p"
proof -
  from assms obtain p1 p2 where
    a: "HandleIntValue (HandleOperatorEqOrSymbol (HandleKeywordOrId p)) = Inr p1"
    and b: "HandleString p1 = Inr p2"
    and c: "HandleDent (HandleNewLine (HandleComments (RemovingSpacesBeforeTokens p2))) = Inr p'"
    by (auto simp add: handle_all_def split: sum.splits)
  from HandleIntValue_keeps [OF a] HandleOperatorEqOrSymbol_keeps [of "HandleKeywordOrId p"]
    HandleKeywordOrId_keeps [of p]
  have "dent_balance p1 = dent_balance p \<and> current_dent p1 = current_dent p" by simp
  moreover from HandleString_keeps [OF b]
  have "dent_balance p2 = dent_balance p1 \<and> current_dent p2 = current_dent p1" .
  moreover from HandleDent_balance [OF c]
    HandleNewLine_keeps [of "HandleComments (RemovingSpacesBeforeTokens p2)"]
    HandleComments_keeps [of "RemovingSpacesBeforeTokens p2"] RemovingSpaces_keeps [of p2]
  have "dent_balance p' - current_dent p' = dent_balance p2 - current_dent p2" by simp
  ultimately show ?thesis by simp
qed

lemma ParseTokens_loop_balance:
  "ParseTokens_loop n p = Lexed p' \<Longrightarrow> dent_balance p' - current_dent p' = dent_balance p - current_dent p"
proof (induction n arbitrary: p)
  case 0
  then show ?case by simp
next
  case (Suc n)
  show ?case
  proof (cases "failbit (input_tokens p)")
    case True
    with Suc.prems show ?thesis by simp
  next
    case False
    with Suc.prems obtain p1 where h: "handle_all p = Inr p1" and r: "ParseTokens_loop n p1 = Lexed p'"
      by (auto split: sum.splits)
    from Suc.IH [OF r] handle_all_balance [OF h] show ?thesis by simp
  qed
qed

lemma ParseTokens_balance:
  assumes "ParseTokens n p = Lexed p'"
  shows "dent_balance p' - current_dent p' = dent_balance p - current_dent p"
proof -
  from assms obtain p1 where l: "ParseTokens_loop n (RemovingSpacesBeforeTokens p) = Lexed p1"
    and e: "p' = emplace_back Eof_tok
            (if tokens p1 \<noteq> [] \<and> \<not> back_is Newline_tok p1 \<and> \<not> back_is Dedent_tok p1
             then emplace_back Newline_tok p1 else p1)"
    by (auto simp add: ParseTokens_def split: lexing.splits)
  from e have "dent_balance p' = dent_balance p1 \<and> current_dent p' = current_dent p1"
    by (simp add: balance_emplace_back)
  with ParseTokens_loop_balance [OF l] RemovingSpaces_keeps [of p] show ?thesis by simp
qed

text \<open>
  When the lexer returns, the number of \<^verbatim>\<open>Indent\<close> tokens less the number of
  \<^verbatim>\<open>Dedent\<close> tokens is the indentation level it stopped at.
\<close>

lemma indent_surplus_is_level:
  assumes "ParseTokens n \<lparr>input_tokens = \<lparr>chars = input, eofbit = False, failbit = False\<rparr>,
                          tokens = [], current_dent = 0\<rparr> = Lexed p"
  shows "int (count_list (tokens p) Indent_tok) - int (count_list (tokens p) Dedent_tok) = current_dent p"
  using ParseTokens_balance [OF assms] by (simp add: dent_balance_def)

text \<open>
  Claim C5 says that every input lexed without an error gives as many \<^verbatim>\<open>Indent\<close> as
  \<^verbatim>\<open>Dedent\<close> tokens. \<^verbatim>\<open>HandleDent\<close> runs only after a \<^verbatim>\<open>Newline\<close> token, and after
  the loop \<^verbatim>\<open>ParseTokens\<close> adds a \<^verbatim>\<open>Newline\<close> and \<^verbatim>\<open>Eof\<close> but no \<^verbatim>\<open>Dedent\<close>. The
  text \<^verbatim>\<open>if x:\<close>, newline, \<^verbatim>\<open>  y = 1\<close>, which ends inside the indented block with no
  newline after it, is lexed, with any fuel from six on, to one \<^verbatim>\<open>Indent\<close> and no
  \<^verbatim>\<open>Dedent\<close>.
\<close>

theorem Lexer_indent_without_dedent:
  "\<forall>n. Lexer (Suc (Suc (Suc (Suc (Suc (Suc n)))))) (''if x:'' @ [CHR 0x0A] @ ''  y = 1'')
     = Lexed [If_tok, Id_tok ''x'', Char_tok (CHR '':''), Newline_tok, Indent_tok,
              Id_tok ''y'', Char_tok (CHR ''=''), Number_tok 1, Newline_tok, Eof_tok]
   \<and> count_list [If_tok, Id_tok ''x'', Char_tok (CHR '':''), Newline_tok, Indent_tok,
              Id_tok ''y'', Char_tok (CHR ''=''), Number_tok 1, Newline_tok, Eof_tok] Indent_tok = 1
   \<and> count_list [If_tok, Id_tok ''x'', Char_tok (CHR '':''), Newline_tok, Indent_tok,
              Id_tok ''y'', Char_tok (CHR ''=''), Number_tok 1, Newline_tok, Eof_tok] Dedent_tok = 0"
  by (simp add: stream_defs char_defs handler_defs loop_simps)

text \<open>
  Claim C6 says that lexing fails with a \<^verbatim>\<open>LexerError\<close> and with nothing else, an
  integer literal that is too long included. \<^verbatim>\<open>HandleIntValue\<close> hands the digits to
  \<^verbatim>\<open>std::stoi\<close> and catches nothing: on \<^verbatim>\<open>99999999999\<close> the lexer ends, with any fuel
  from one on, with \<^verbatim>\<open>std::out_of_range\<close>.
\<close>

theorem Lexer_overlong_integer:
  "\<forall>n. Lexer (Suc n) ''99999999999'' = Raised std_out_of_range"
  by (simp add: stream_defs char_defs handler_defs loop_simps)

end
